theory Spec2Isabelle
  imports Complex_Main "HOL-Library.Log_Nat"
begin

section \<open>Python values, exceptions and floats\<close>

text \<open>
  The exceptions that can surface in \<^verbatim>\<open>neuralprocesses/model.py\<close>. Python's
  \<^verbatim>\<open>except Exception\<close> catches every instance of the class \<^verbatim>\<open>Exception\<close>;
  \<^verbatim>\<open>KeyboardInterrupt\<close> and \<^verbatim>\<open>SystemExit\<close> derive from \<^verbatim>\<open>BaseException\<close>
  only and are not caught by it. \<open>NotFoundLookupError\<close> is what the dispatcher raises
  when no registered signature matches; \<open>LinAlgError\<close> is the numerical failure of a
  Cholesky-based sampler; \<open>OtherException\<close> stands for any further subclass of
  \<^verbatim>\<open>Exception\<close>, tagged with a number.
\<close>

datatype py_exception =
    NameError string
  | TypeError
  | AttributeError string
  | KeyError string
  | NotFoundLookupError
  | LinAlgError
  | OtherException nat
  | KeyboardInterrupt
  | SystemExit

fun is_Exception :: "py_exception \<Rightarrow> bool" where
  "is_Exception KeyboardInterrupt = False"
| "is_Exception SystemExit = False"
| "is_Exception _ = True"

text \<open>
  \<^verbatim>\<open>B.epsilon\<close> is a Python float, that is an IEEE 754 binary64 number. A finite
  binary64 value is represented by the rational number it denotes. Every arithmetic
  operation on floats returns the exact result rounded to the nearest number with a
  53-bit significand, ties to the even significand; \<open>binary64\<close> is that rounding.
  The exponent is left unbounded: overflow to infinity and subnormal numbers, which
  are more than 300 orders of magnitude away from the values of \<^verbatim>\<open>B.epsilon\<close>, and
  NaN are outside the model.
\<close>

type_synonym py_float = rat

definition floor_log2 :: "rat \<Rightarrow> int" where
  "floor_log2 q =
     (let (a, b) = quotient_of q; d = bitlen a - bitlen b
      in if 2 powi d \<le> q then d else d - 1)"

definition round_half_even :: "rat \<Rightarrow> int" where
  "round_half_even s =
     (let n = \<lfloor>s\<rfloor>; r = s - of_int n
      in if r < 1 / 2 then n
         else if 1 / 2 < r then n + 1
         else if even n then n else n + 1)"

definition binary64 :: "rat \<Rightarrow> py_float" where
  "binary64 q =
     (if q = 0 then 0
      else let e = floor_log2 \<bar>q\<bar> - 52
           in of_int (round_half_even (q / 2 powi e)) * 2 powi e)"

text \<open>Float multiplication \<^verbatim>\<open>a * b\<close>; an \<^verbatim>\<open>int\<close> operand such as \<^verbatim>\<open>10\<close> is
  converted exactly.\<close>

definition float_mul :: "py_float \<Rightarrow> py_float \<Rightarrow> py_float" where
  "float_mul a b = binary64 (a * b)"

text \<open>The float literals of the source and of the test set-up
  (\<^verbatim>\<open>B.epsilon = 1e-6\<close> in \<^verbatim>\<open>tests/util.py\<close>): the literal denotes the binary64 number
  nearest to the decimal.\<close>

definition lit_1e_3 :: py_float where
  "lit_1e_3 = binary64 (1 / 10 ^ 3)"

definition lit_1e_4 :: py_float where
  "lit_1e_4 = binary64 (1 / 10 ^ 4)"

definition lit_1e_6 :: py_float where
  "lit_1e_6 = binary64 (1 / 10 ^ 6)"


section \<open>Dynamically typed values\<close>

text \<open>
  The values that flow through \<^verbatim>\<open>model.py\<close>. Tensors (\<open>'t\<close>) and atomic
  multi-output distributions (\<open>'d\<close>) belong to the backend and stay abstract.
  \<open>Parallel\<close> is the ordered container of \<^verbatim>\<open>neuralprocesses.parallel\<close>, which holds
  data or distributions alike; \<open>AugmentedInput\<close> pairs target inputs with auxiliary
  data. \<open>PDict\<close> is a dictionary with string keys and \<open>PObject\<close> an object with
  named attributes.
\<close>

datatype ('t, 'd) pyval =
    PNone
  | PBool bool
  | PInt int
  | DType string
  | Tensor 't
  | Dist 'd
  | Parallel "('t, 'd) pyval list"
  | AugmentedInput "('t, 'd) pyval" "('t, 'd) pyval"
  | PDict "(string \<times> ('t, 'd) pyval) list"
  | PObject "(string \<times> ('t, 'd) pyval) list"

type_synonym ('t, 'd) kwargs = "string \<Rightarrow> ('t, 'd) pyval option"

fun py_truthy :: "('t, 'd) pyval \<Rightarrow> bool" where
  "py_truthy PNone = False"
| "py_truthy (PBool b) = b"
| "py_truthy (PInt n) = (n \<noteq> 0)"
| "py_truthy _ = True"

fun py_getitem :: "('t, 'd) pyval \<Rightarrow> string \<Rightarrow> py_exception + ('t, 'd) pyval" where
  "py_getitem (PDict kvs) k = (case map_of kvs k of None \<Rightarrow> Inl (KeyError k) | Some v \<Rightarrow> Inr v)"
| "py_getitem _ k = Inl TypeError"

fun py_getattr :: "('t, 'd) pyval \<Rightarrow> string \<Rightarrow> py_exception + ('t, 'd) pyval" where
  "py_getattr (PObject attrs) a =
     (case map_of attrs a of None \<Rightarrow> Inl (AttributeError a) | Some v \<Rightarrow> Inr v)"
| "py_getattr _ a = Inl (AttributeError a)"

text \<open>Looking a free name up in the global scope of the module (and the builtins behind
  it): an unbound name raises \<^verbatim>\<open>NameError\<close>.\<close>

definition load_name :: "('t, 'd) kwargs \<Rightarrow> string \<Rightarrow> py_exception + ('t, 'd) pyval" where
  "load_name G n = (case G n of None \<Rightarrow> Inl (NameError n) | Some v \<Rightarrow> Inr v)"

text \<open>
  The names that executing the top level of \<^verbatim>\<open>model.py\<close> binds: its imports
  (lines 1 to 12), \<^verbatim>\<open>__all__\<close> and its definitions. Their values are not looked up
  through \<open>load_name\<close> by this development, hence each is an object without
  modelled attributes. No builtin of Python is called \<^verbatim>\<open>batch\<close>, \<^verbatim>\<open>x\<close> or
  \<^verbatim>\<open>torch\<close>.
\<close>

definition module_names :: "string list" where
  "module_names =
     [''B'', ''np'', ''indent'', ''List'', ''Tuple'', ''Union'', ''_dispatch'',
      ''AugmentedInput'', ''code'', ''code_track'', ''recode_stochastic'',
      ''AbstractMultiOutputDistribution'', ''Masked'', ''Parallel'', ''register_module'',
      ''__all__'', ''Model'', ''_sample'', ''loglik'', ''elbo'', ''_kl'', ''predict'']"

definition module_globals :: "('t, 'd) kwargs" where
  "module_globals = map_of (map (\<lambda>n. (n, PObject [])) module_names)"

section \<open>Effects of the external collaborators\<close>

text \<open>
  The coders and the samplers of the distributions are random and can fail. They read
  the process-wide regularisation \<^verbatim>\<open>B.epsilon\<close> (first argument), thread a state
  \<open>'g\<close> of their own (random generators and the like) and either raise or return.
  They do not assign \<^verbatim>\<open>B.epsilon\<close>: only \<^verbatim>\<open>predict\<close> does.
\<close>

type_synonym ('g, 'a) eff = "py_float \<Rightarrow> 'g \<Rightarrow> (py_exception + 'a) \<times> 'g"

definition eff_return :: "'a \<Rightarrow> ('g, 'a) eff" where
  "eff_return a = (\<lambda>eps g. (Inr a, g))"

definition eff_raise :: "py_exception \<Rightarrow> ('g, 'a) eff" where
  "eff_raise e = (\<lambda>eps g. (Inl e, g))"

definition eff_lift :: "py_exception + 'a \<Rightarrow> ('g, 'a) eff" where
  "eff_lift r = (\<lambda>eps g. (r, g))"

definition eff_bind :: "('g, 'a) eff \<Rightarrow> ('a \<Rightarrow> ('g, 'b) eff) \<Rightarrow> ('g, 'b) eff" where
  "eff_bind m f =
     (\<lambda>eps g. case m eps g of (Inl e, g') \<Rightarrow> (Inl e, g') | (Inr a, g') \<Rightarrow> f a eps g')"

text \<open>
  What \<^verbatim>\<open>model.py\<close> imports and calls: the backend \<^verbatim>\<open>lab\<close> (as \<^verbatim>\<open>B\<close>) with
  \<^verbatim>\<open>np.float64\<close>, the arithmetic operators of tensors, the coding pipeline of
  \<^verbatim>\<open>.coding\<close> and the methods of \<^verbatim>\<open>AbstractMultiOutputDistribution\<close>. Axis
  arguments that the source fixes are part of the field: \<open>B_logsumexp0\<close> and
  \<open>B_mean0\<close> reduce over axis 0, \<open>B_concat_last\<close> and \<open>B_shape_last\<close> work on
  axis -1. The tensor operations are taken as total functions.
\<close>

record ('t, 'd, 'c, 'g) ext =
  B_dtype_float :: "('t, 'd) pyval \<Rightarrow> ('t, 'd) pyval"
  B_promote_dtypes :: "('t, 'd) pyval \<Rightarrow> ('t, 'd) pyval \<Rightarrow> ('t, 'd) pyval"
  np_float64 :: "('t, 'd) pyval"
  B_cast :: "('t, 'd) pyval \<Rightarrow> ('t, 'd) pyval \<Rightarrow> ('t, 'd) pyval"
  B_logsumexp0 :: "('t, 'd) pyval \<Rightarrow> ('t, 'd) pyval"
  B_log :: "('t, 'd) pyval \<Rightarrow> ('t, 'd) pyval"
  B_mean0 :: "('t, 'd) pyval \<Rightarrow> ('t, 'd) pyval"
  B_concat_last :: "('t, 'd) pyval \<Rightarrow> ('t, 'd) pyval \<Rightarrow> ('t, 'd) pyval"
  B_shape_last :: "('t, 'd) pyval \<Rightarrow> int"
  op_add :: "('t, 'd) pyval \<Rightarrow> ('t, 'd) pyval \<Rightarrow> ('t, 'd) pyval"
  op_sub :: "('t, 'd) pyval \<Rightarrow> ('t, 'd) pyval \<Rightarrow> ('t, 'd) pyval"
  op_truediv :: "('t, 'd) pyval \<Rightarrow> ('t, 'd) pyval \<Rightarrow> ('t, 'd) pyval"
  op_pow :: "('t, 'd) pyval \<Rightarrow> ('t, 'd) pyval \<Rightarrow> ('t, 'd) pyval"
  code :: "'c \<Rightarrow> ('t, 'd) pyval \<Rightarrow> ('t, 'd) pyval \<Rightarrow> ('t, 'd) pyval \<Rightarrow> ('t, 'd) kwargs
             \<Rightarrow> ('g, ('t, 'd) pyval \<times> ('t, 'd) pyval) eff"
  code_track :: "'c \<Rightarrow> ('t, 'd) pyval \<Rightarrow> ('t, 'd) pyval \<Rightarrow> ('t, 'd) pyval \<Rightarrow> ('t, 'd) kwargs
             \<Rightarrow> ('g, ('t, 'd) pyval \<times> ('t, 'd) pyval \<times> ('t, 'd) pyval) eff"
  recode_stochastic :: "'c \<Rightarrow> ('t, 'd) pyval \<Rightarrow> ('t, 'd) pyval \<Rightarrow> ('t, 'd) pyval
             \<Rightarrow> ('t, 'd) pyval \<Rightarrow> ('t, 'd) kwargs \<Rightarrow> ('g, ('t, 'd) pyval) eff"
  dist_sample :: "'d \<Rightarrow> int option \<Rightarrow> ('g, ('t, 'd) pyval) eff"
  dist_logpdf :: "'d \<Rightarrow> ('t, 'd) pyval \<Rightarrow> ('t, 'd) pyval"
  dist_kl :: "'d \<Rightarrow> 'd \<Rightarrow> ('t, 'd) pyval"
  dist_mean :: "'d \<Rightarrow> ('t, 'd) pyval"
  dist_var :: "'d \<Rightarrow> ('t, 'd) pyval"

text \<open>Attribute access and method calls on the value a coder returned: anything that is
  not a distribution has no such attribute.\<close>

fun get_mean :: "('t, 'd, 'c, 'g) ext \<Rightarrow> ('t, 'd) pyval \<Rightarrow> py_exception + ('t, 'd) pyval" where
  "get_mean E (Dist d) = Inr (dist_mean E d)"
| "get_mean E _ = Inl (AttributeError ''mean'')"

fun get_var :: "('t, 'd, 'c, 'g) ext \<Rightarrow> ('t, 'd) pyval \<Rightarrow> py_exception + ('t, 'd) pyval" where
  "get_var E (Dist d) = Inr (dist_var E d)"
| "get_var E _ = Inl (AttributeError ''var'')"

fun call_logpdf :: "('t, 'd, 'c, 'g) ext \<Rightarrow> ('t, 'd) pyval \<Rightarrow> ('t, 'd) pyval
    \<Rightarrow> py_exception + ('t, 'd) pyval" where
  "call_logpdf E (Dist d) y = Inr (dist_logpdf E d y)"
| "call_logpdf E _ y = Inl (AttributeError ''logpdf'')"

fun call_sample :: "('t, 'd, 'c, 'g) ext \<Rightarrow> ('t, 'd) pyval \<Rightarrow> ('g, ('t, 'd) pyval) eff" where
  "call_sample E (Dist d) = dist_sample E d None"
| "call_sample E _ = eff_raise (AttributeError ''sample'')"

section \<open>The sampling and KL helpers\<close>

text \<open>
  \<^verbatim>\<open>_sample\<close> (lines 114 to 121) dispatches on the type of \<^verbatim>\<open>x\<close>: a distribution is
  sampled by its own method, a \<^verbatim>\<open>Parallel\<close> element by element, in order, into a new
  \<^verbatim>\<open>Parallel\<close>; any other value matches no signature. \<open>num = None\<close> is a call that
  leaves \<^verbatim>\<open>num\<close> out, which takes the default 1.
\<close>

fun u_sample_num :: "('t, 'd, 'c, 'g) ext \<Rightarrow> ('t, 'd) pyval \<Rightarrow> int \<Rightarrow> ('g, ('t, 'd) pyval) eff"
  and u_sample_list :: "('t, 'd, 'c, 'g) ext \<Rightarrow> ('t, 'd) pyval list \<Rightarrow> int
    \<Rightarrow> ('g, ('t, 'd) pyval list) eff" where
  "u_sample_num E (Dist x) num = dist_sample E x (Some num)"
| "u_sample_num E (Parallel xs) num =
     eff_bind (u_sample_list E xs num) (\<lambda>zs. eff_return (Parallel zs))"
| "u_sample_num E _ num = eff_raise NotFoundLookupError"
| "u_sample_list E [] num = eff_return []"
| "u_sample_list E (x_i # xs) num =
     eff_bind (u_sample_num E x_i num) (\<lambda>z.
     eff_bind (u_sample_list E xs num) (\<lambda>zs. eff_return (z # zs)))"

definition u_sample :: "('t, 'd, 'c, 'g) ext \<Rightarrow> ('t, 'd) pyval \<Rightarrow> int option
    \<Rightarrow> ('g, ('t, 'd) pyval) eff" where
  "u_sample E x num = u_sample_num E x (case num of None \<Rightarrow> 1 | Some n \<Rightarrow> n)"

text \<open>
  \<^verbatim>\<open>_kl\<close> (lines 232 to 239). The \<^verbatim>\<open>Parallel\<close> method is
  \<^verbatim>\<open>sum([_kl(qi, pi) for qi, pi in zip(q, p)], 0)\<close>: \<^verbatim>\<open>zip\<close> stops at the shorter
  operand, and \<^verbatim>\<open>sum\<close> adds from the left, starting at the integer 0.
\<close>

definition py_sum :: "('t, 'd, 'c, 'g) ext \<Rightarrow> ('t, 'd) pyval list \<Rightarrow> ('t, 'd) pyval
    \<Rightarrow> ('t, 'd) pyval" where
  "py_sum E vs start = foldl (op_add E) start vs"

fun u_kl :: "('t, 'd, 'c, 'g) ext \<Rightarrow> ('t, 'd) pyval \<Rightarrow> ('t, 'd) pyval
    \<Rightarrow> py_exception + ('t, 'd) pyval"
  and u_kl_zip :: "('t, 'd, 'c, 'g) ext \<Rightarrow> ('t, 'd) pyval list \<Rightarrow> ('t, 'd) pyval list
    \<Rightarrow> py_exception + ('t, 'd) pyval list" where
  "u_kl E (Dist q) (Dist p) = Inr (dist_kl E q p)"
| "u_kl E (Parallel qs) (Parallel ps) =
     (case u_kl_zip E qs ps of Inl e \<Rightarrow> Inl e | Inr vs \<Rightarrow> Inr (py_sum E vs (PInt 0)))"
| "u_kl E _ _ = Inl NotFoundLookupError"
| "u_kl_zip E (q_i # qs) (p_i # ps) =
     (case u_kl E q_i p_i of
        Inl e \<Rightarrow> Inl e
      | Inr v \<Rightarrow> (case u_kl_zip E qs ps of Inl e \<Rightarrow> Inl e | Inr vs \<Rightarrow> Inr (v # vs)))"
| "u_kl_zip E _ _ = Inr []"


section \<open>The model\<close>

record 'c Model =
  encoder :: 'c
  decoder :: 'c

text \<open>
  \<^verbatim>\<open>Model.__call__\<close>, first method (lines 35 to 79). \<open>aux_t\<close> and
  \<open>dtype_enc_sample\<close> are \<open>PNone\<close> when the caller leaves them out; \<open>kw_args\<close>
  holds the keywords that no named parameter takes. \<^verbatim>\<open>dict(kw_args)\<close> is a copy, so
  deleting \<^verbatim>\<open>"noiseless"\<close> from it leaves \<open>kw_args\<close> as it was.
\<close>

definition Model_call :: "('t, 'd, 'c, 'g) ext \<Rightarrow> 'c Model \<Rightarrow> ('t, 'd) pyval \<Rightarrow> ('t, 'd) pyval
    \<Rightarrow> ('t, 'd) pyval \<Rightarrow> int \<Rightarrow> ('t, 'd) pyval \<Rightarrow> ('t, 'd) pyval \<Rightarrow> ('t, 'd) kwargs
    \<Rightarrow> ('g, ('t, 'd) pyval) eff" where
  "Model_call E self xc yc xt num_samples aux_t dtype_enc_sample kw_args =
     (let xt = (if aux_t \<noteq> PNone then AugmentedInput xt aux_t else xt);
          enc_kw_args = kw_args;
          enc_kw_args = (if ''noiseless'' \<in> dom enc_kw_args
                         then enc_kw_args(''noiseless'' := None) else enc_kw_args)
      in eff_bind (code E (encoder self) xc yc xt enc_kw_args) (\<lambda>(xz, pz).
         eff_bind (u_sample E pz (Some num_samples)) (\<lambda>z.
         let z = (if py_truthy dtype_enc_sample then B_cast E dtype_enc_sample z else z)
         in eff_bind (code E (decoder self) xz z xt kw_args) (\<lambda>(_, d).
            eff_return d))))"

text \<open>
  A call \<^verbatim>\<open>model(xc, yc, xt, k1=v1, ..., **kw_args)\<close> from the objectives: a keyword
  given both explicitly and in \<^verbatim>\<open>kw_args\<close> is a \<^verbatim>\<open>TypeError\<close>; \<^verbatim>\<open>aux_t\<close> in
  \<^verbatim>\<open>kw_args\<close> reaches the named parameter, the rest are the callee's \<^verbatim>\<open>kw_args\<close>.
\<close>

definition get_kw :: "('t, 'd) kwargs \<Rightarrow> string \<Rightarrow> ('t, 'd) pyval" where
  "get_kw kw k = (case kw k of None \<Rightarrow> PNone | Some v \<Rightarrow> v)"

section \<open>The objectives\<close>

text \<open>\<^verbatim>\<open>loglik\<close> (lines 124 to 171).\<close>

definition loglik :: "('t, 'd, 'c, 'g) ext \<Rightarrow> 'c Model \<Rightarrow> ('t, 'd) pyval \<Rightarrow> ('t, 'd) pyval
    \<Rightarrow> ('t, 'd) pyval \<Rightarrow> ('t, 'd) pyval \<Rightarrow> int \<Rightarrow> bool \<Rightarrow> ('t, 'd) kwargs
    \<Rightarrow> ('g, ('t, 'd) pyval) eff" where
  "loglik E model xc yc xt yt num_samples normalise kw_args =
     (let float = B_dtype_float E yt;
          float64 = B_promote_dtypes E float (np_float64 E)
      in if ''dtype_enc_sample'' \<in> dom kw_args \<or> ''dtype_lik'' \<in> dom kw_args
         then eff_raise TypeError
         else
           eff_bind (Model_call E model xc yc xt num_samples (get_kw kw_args ''aux_t'') float
                       ((kw_args(''aux_t'' := None))(''dtype_lik'' \<mapsto> float64))) (\<lambda>pred.
           eff_bind (eff_lift (call_logpdf E pred (B_cast E float64 yt))) (\<lambda>logpdfs.
           let logpdfs = (if num_samples > 1
                          then op_sub E (B_logsumexp0 E logpdfs) (B_log E (PInt num_samples))
                          else logpdfs);
               logpdfs = (if normalise
                          then op_truediv E logpdfs (PInt (B_shape_last E xt))
                          else logpdfs)
           in eff_return logpdfs)))"

text \<open>\<^verbatim>\<open>elbo\<close> (lines 174 to 229). The assignments of lines 207 and 208 rebind the
  local names \<^verbatim>\<open>xt\<close> and \<^verbatim>\<open>yt\<close>; every later line reads the new values.\<close>

definition elbo :: "('t, 'd, 'c, 'g) ext \<Rightarrow> 'c Model \<Rightarrow> ('t, 'd) pyval \<Rightarrow> ('t, 'd) pyval
    \<Rightarrow> ('t, 'd) pyval \<Rightarrow> ('t, 'd) pyval \<Rightarrow> int \<Rightarrow> bool \<Rightarrow> bool \<Rightarrow> ('t, 'd) kwargs
    \<Rightarrow> ('g, ('t, 'd) pyval) eff" where
  "elbo E model xc yc xt yt num_samples normalise subsume_context kw_args =
     (let float = B_dtype_float E yt;
          float64 = B_promote_dtypes E float (np_float64 E);
          xt = (if subsume_context then B_concat_last E xc xt else xt);
          yt = (if subsume_context then B_concat_last E yc yt else yt)
      in if ''dtype_lik'' \<in> dom kw_args
         then eff_raise TypeError
         else
           let kw = kw_args(''dtype_lik'' \<mapsto> float64)
           in eff_bind (code_track E (encoder model) xc yc xt kw) (\<lambda>(xz, pz, h).
              eff_bind (recode_stochastic E (encoder model) pz xt yt h kw) (\<lambda>qz.
              eff_bind (u_sample E qz (Some num_samples)) (\<lambda>z.
              let z = B_cast E float z
              in eff_bind (code E (decoder model) xz z xt kw) (\<lambda>(_, d).
                 eff_bind (eff_lift (call_logpdf E d (B_cast E float64 yt))) (\<lambda>lp.
                 eff_bind (eff_lift (u_kl E qz pz)) (\<lambda>kl.
                 let elbos = op_sub E (B_mean0 E lp) kl;
                     elbos = (if normalise
                              then op_truediv E elbos (PInt (B_shape_last E xt))
                              else elbos)
                 in eff_return elbos)))))))"


text \<open>
  \<^verbatim>\<open>predict\<close> (lines 242 to 290) reads and assigns the process-wide
  \<^verbatim>\<open>B.epsilon\<close>, so it takes the current value and returns the value it leaves
  behind, next to its outcome and the state of the collaborators.

  The retry loop of lines 278 to 287. \<open>sample\<close> is the attempt
  \<^verbatim>\<open>pred_noiseless.sample()\<close>, which sees the current \<^verbatim>\<open>B.epsilon\<close>. The handler is
  \<^verbatim>\<open>except Exception\<close>: an exception outside that class leaves the loop at once, with
  \<^verbatim>\<open>B.epsilon\<close> as it is at that moment. The loop has no bound of its own, so it is a
  partial function: \<open>None\<close> is a run that never leaves the loop.
\<close>

partial_function (option) predict_retry :: "('g, 'a) eff \<Rightarrow> py_float \<Rightarrow> py_float \<Rightarrow> 'g
    \<Rightarrow> ((py_exception + 'a) \<times> py_float \<times> 'g) option" where
  "predict_retry sample epsilon_before epsilon g =
     (case sample epsilon g of
        (Inr samples, g') \<Rightarrow> Some (Inr samples, epsilon_before, g')
      | (Inl e, g') \<Rightarrow>
          if is_Exception e then
            let epsilon = float_mul epsilon 10
            in if epsilon > lit_1e_3
               then Some (Inl e, epsilon_before, g')
               else predict_retry sample epsilon_before epsilon g'
          else Some (Inl e, epsilon, g'))"

text \<open>
  Lines 260 to 275: the marginal statistics and the second call of the model. The
  arguments of that call are evaluated from left to right; \<^verbatim>\<open>batch\<close>, \<^verbatim>\<open>x\<close> and
  \<^verbatim>\<open>torch\<close> are neither parameters nor local names of \<^verbatim>\<open>predict\<close>, so they are
  looked up in the global scope \<open>G\<close> of the module.
\<close>

definition predict_prepare :: "('t, 'd, 'c, 'g) ext \<Rightarrow> ('t, 'd) kwargs \<Rightarrow> 'c Model
    \<Rightarrow> ('t, 'd) pyval \<Rightarrow> ('t, 'd) pyval \<Rightarrow> ('t, 'd) pyval \<Rightarrow> int \<Rightarrow> int
    \<Rightarrow> ('g, ('t, 'd) pyval \<times> ('t, 'd) pyval \<times> ('t, 'd) pyval) eff" where
  "predict_prepare E G model xc yc xt pred_num_samples num_samples =
     eff_bind (Model_call E model xc yc xt pred_num_samples PNone PNone Map.empty) (\<lambda>pred.
     eff_bind (eff_lift (get_mean E pred)) (\<lambda>pred_mean.
     let m1 = B_mean0 E pred_mean
     in eff_bind (eff_lift (get_var E pred)) (\<lambda>pred_var.
        let m2 = B_mean0 E (op_add E pred_var (op_pow E pred_mean (PInt 2)));
            mean = m1;
            var = op_sub E m2 (op_pow E m1 (PInt 2))
        in eff_bind (eff_lift (load_name G ''batch'')) (\<lambda>batch.
           eff_bind (eff_lift (py_getitem batch ''xc'')) (\<lambda>batch_xc.
           eff_bind (eff_lift (load_name G ''batch'')) (\<lambda>batch.
           eff_bind (eff_lift (py_getitem batch ''yc'')) (\<lambda>batch_yc.
           eff_bind (eff_lift (load_name G ''x'')) (\<lambda>x.
           eff_bind (eff_lift (load_name G ''torch'')) (\<lambda>torch.
           eff_bind (eff_lift (py_getattr torch ''float32'')) (\<lambda>torch_float32.
           eff_bind (eff_lift (load_name G ''torch'')) (\<lambda>torch.
           eff_bind (eff_lift (py_getattr torch ''float64'')) (\<lambda>torch_float64.
           eff_bind (Model_call E model batch_xc batch_yc x num_samples PNone torch_float32
                       [''dtype_lik'' \<mapsto> torch_float64, ''noiseless'' \<mapsto> PBool True])
             (\<lambda>pred_noiseless.
           eff_return (mean, var, pred_noiseless))))))))))))))"

definition predict :: "('t, 'd, 'c, 'g) ext \<Rightarrow> ('t, 'd) kwargs \<Rightarrow> 'c Model
    \<Rightarrow> ('t, 'd) pyval \<Rightarrow> ('t, 'd) pyval \<Rightarrow> ('t, 'd) pyval \<Rightarrow> int \<Rightarrow> int \<Rightarrow> py_float \<Rightarrow> 'g
    \<Rightarrow> ((py_exception + ('t, 'd) pyval \<times> ('t, 'd) pyval \<times> ('t, 'd) pyval)
          \<times> py_float \<times> 'g) option" where
  "predict E G model xc yc xt pred_num_samples num_samples epsilon g =
     (case predict_prepare E G model xc yc xt pred_num_samples num_samples epsilon g of
        (Inl e, g') \<Rightarrow> Some (Inl e, epsilon, g')
      | (Inr (mean, var, pred_noiseless), g') \<Rightarrow>
          (let epsilon_before = epsilon
           in case predict_retry (call_sample E pred_noiseless) epsilon_before epsilon g' of
                None \<Rightarrow> None
              | Some (Inl e, epsilon', g'') \<Rightarrow> Some (Inl e, epsilon', g'')
              | Some (Inr samples, epsilon', g'') \<Rightarrow>
                  Some (Inr (mean, var, samples), epsilon', g'')))"


section \<open>A symbolic backend and test samplers\<close>

text \<open>
  Concrete collaborators on which the functions above can be run. Tensors and
  distributions are terms: every operation of the backend returns the term that
  names the operation and its arguments, so the outcome of a run shows which
  operations were applied to what, in which order. A data tensor \<open>data name n\<close>
  has \<open>n\<close> points on its last axis. The state counts the samples drawn so far, and
  each sample carries the count at which it was drawn.
\<close>

datatype sym = Sym string "sym list" | SInt int

fun reify :: "(sym, sym) pyval \<Rightarrow> sym" where
  "reify PNone = Sym ''None'' []"
| "reify (PBool b) = Sym (if b then ''True'' else ''False'') []"
| "reify (PInt n) = SInt n"
| "reify (DType s) = Sym s []"
| "reify (Tensor t) = t"
| "reify (Dist d) = d"
| "reify (Parallel xs) = Sym ''Parallel'' (map reify xs)"
| "reify (AugmentedInput x a) = Sym ''AugmentedInput'' [reify x, reify a]"
| "reify (PDict kvs) = Sym ''dict'' []"
| "reify (PObject attrs) = Sym ''object'' []"

definition reify_kw :: "(sym, sym) kwargs \<Rightarrow> sym" where
  "reify_kw kw =
     Sym ''kw'' (concat (map (\<lambda>k. case kw k of None \<Rightarrow> [] | Some v \<Rightarrow> [Sym k [reify v]])
                          [''dtype_lik'', ''noiseless'', ''extra'']))"

definition data :: "string \<Rightarrow> int \<Rightarrow> (sym, sym) pyval" where
  "data name n = Tensor (Sym name [SInt n])"

fun last_axis :: "sym \<Rightarrow> int" where
  "last_axis (Sym f [SInt n]) = n"
| "last_axis (Sym f [a, b]) = (if f = ''concat'' then last_axis a + last_axis b else 0)"
| "last_axis _ = 0"

definition sym_op :: "string \<Rightarrow> (sym, sym) pyval list \<Rightarrow> (sym, sym) pyval" where
  "sym_op f args = Tensor (Sym f (map reify args))"

definition sym_ext :: "(sym, sym, string, nat) ext" where
  "sym_ext = \<lparr>
     B_dtype_float = (\<lambda>y. DType ''float32''),
     B_promote_dtypes = (\<lambda>a b. DType ''float64''),
     np_float64 = DType ''float64'',
     B_cast = (\<lambda>dtype v. sym_op ''cast'' [dtype, v]),
     B_logsumexp0 = (\<lambda>v. sym_op ''logsumexp'' [v]),
     B_log = (\<lambda>v. sym_op ''log'' [v]),
     B_mean0 = (\<lambda>v. sym_op ''mean'' [v]),
     B_concat_last = (\<lambda>a b. sym_op ''concat'' [a, b]),
     B_shape_last = (\<lambda>v. last_axis (reify v)),
     op_add = (\<lambda>a b. sym_op ''add'' [a, b]),
     op_sub = (\<lambda>a b. sym_op ''sub'' [a, b]),
     op_truediv = (\<lambda>a b. sym_op ''truediv'' [a, b]),
     op_pow = (\<lambda>a b. sym_op ''pow'' [a, b]),
     code = (\<lambda>c xc yc xt kw eps g.
       (Inr (sym_op ''xz'' [xc, xt],
             Dist (Sym ''code'' [Sym c [], reify xc, reify yc, reify xt, reify_kw kw])), g)),
     code_track = (\<lambda>c xc yc xt kw eps g.
       (Inr (sym_op ''xz'' [xc, xt],
             Dist (Sym ''code_track'' [Sym c [], reify xc, reify yc, reify xt, reify_kw kw]),
             sym_op ''h'' []), g)),
     recode_stochastic = (\<lambda>c pz xt yt h kw eps g.
       (Inr (Dist (Sym ''recode_stochastic''
                     [Sym c [], reify pz, reify xt, reify yt, reify h, reify_kw kw])), g)),
     dist_sample = (\<lambda>d num eps g.
       (Inr (Tensor (Sym ''sample''
                       [d, (case num of None \<Rightarrow> Sym ''None'' [] | Some n \<Rightarrow> SInt n),
                        SInt (int g)])), Suc g)),
     dist_logpdf = (\<lambda>d y. Tensor (Sym ''logpdf'' [d, reify y])),
     dist_kl = (\<lambda>q p. Tensor (Sym ''kl'' [q, p])),
     dist_mean = (\<lambda>d. Tensor (Sym ''mean_of'' [d])),
     dist_var = (\<lambda>d. Tensor (Sym ''var_of'' [d]))
   \<rparr>"

definition sym_model :: "string Model" where
  "sym_model = \<lparr>encoder = ''enc'', decoder = ''dec''\<rparr>"

text \<open>
  Samplers for the retry loop. Each records in its state the values of
  \<^verbatim>\<open>B.epsilon\<close> at which it was called. \<open>threshold_sampler\<close> fails with a numerical
  error below \<^verbatim>\<open>1e-4\<close> and succeeds from there on; \<open>failing_sampler\<close> raises the
  given exception at every attempt; \<open>counting_sampler\<close> raises at every attempt an
  exception that carries the number of the attempt.
\<close>

definition threshold_sampler :: "(py_float list, (sym, sym) pyval) eff" where
  "threshold_sampler eps seen =
     (if eps < lit_1e_4 then Inl LinAlgError else Inr (sym_op ''samples'' []), seen @ [eps])"

definition failing_sampler :: "py_exception \<Rightarrow> (py_float list, (sym, sym) pyval) eff" where
  "failing_sampler e eps seen = (Inl e, seen @ [eps])"

definition counting_sampler :: "(py_float list, (sym, sym) pyval) eff" where
  "counting_sampler eps seen = (Inl (OtherException (length seen)), seen @ [eps])"


text \<open>
  A backend whose distributions are numerically fragile: the draw
  \<^verbatim>\<open>sample()\<close> without \<^verbatim>\<open>num\<close> raises a numerical error while \<^verbatim>\<open>B.epsilon\<close> is
  below \<^verbatim>\<open>1e-4\<close>. And a global scope in which the three free names of \<^verbatim>\<open>predict\<close>
  are bound, as a caller that assigns them on the module would leave it.
\<close>

definition jitter_ext :: "(sym, sym, string, nat) ext" where
  "jitter_ext = sym_ext\<lparr>dist_sample := (\<lambda>d num eps g.
     if num = None \<and> eps < lit_1e_4 then (Inl LinAlgError, Suc g)
     else dist_sample sym_ext d num eps g)\<rparr>"

definition patched_globals :: "(sym, sym) kwargs" where
  "patched_globals = module_globals
     (''batch'' \<mapsto> PDict [(''xc'', data ''xc'' 5), (''yc'', data ''yc'' 5)],
      ''x'' \<mapsto> data ''xt'' 7,
      ''torch'' \<mapsto> PObject [(''float32'', DType ''float32''), (''float64'', DType ''float64'')])"

section \<open>Float arithmetic of the regularisation\<close>

text \<open>The literals and the successive products by ten, starting at \<^verbatim>\<open>1e-6\<close>, as the
  exact binary64 values. Two escalations give \<^verbatim>\<open>9.999999999999999e-05\<close>, one unit in
  the last place below the literal \<^verbatim>\<open>1e-4\<close>; three give exactly the literal
  \<^verbatim>\<open>1e-3\<close>.\<close>

lemma lit_1e_6_eq: "lit_1e_6 = 4722366482869645 / 2 ^ 72"
  by code_simp

lemma lit_1e_4_eq: "lit_1e_4 = 7378697629483821 / 2 ^ 66"
  by code_simp

lemma lit_1e_3_eq: "lit_1e_3 = 1152921504606847 / 2 ^ 60"
  by code_simp

lemma escalate_1: "float_mul lit_1e_6 10 = 5902958103587056 / 2 ^ 69"
  by code_simp

lemma escalate_2: "float_mul (float_mul lit_1e_6 10) 10 = 7378697629483820 / 2 ^ 66"
  by code_simp

lemma escalate_3:
  "float_mul (float_mul (float_mul lit_1e_6 10) 10) 10 = 1152921504606847 / 2 ^ 60"
  by code_simp

lemma escalate_4:
  "float_mul (float_mul (float_mul (float_mul lit_1e_6 10) 10) 10) 10 = 5764607523034235 / 2 ^ 59"
  by code_simp

lemma below_ceiling_1: "\<not> lit_1e_3 < float_mul lit_1e_6 10"
  by code_simp

lemma below_ceiling_2: "\<not> lit_1e_3 < float_mul (float_mul lit_1e_6 10) 10"
  by code_simp

lemma below_ceiling_3: "\<not> lit_1e_3 < float_mul (float_mul (float_mul lit_1e_6 10) 10) 10"
  by code_simp

lemma above_ceiling_4:
  "lit_1e_3 < float_mul (float_mul (float_mul (float_mul lit_1e_6 10) 10) 10) 10"
  by code_simp

lemma below_threshold_0: "lit_1e_6 < lit_1e_4"
  by code_simp

lemma below_threshold_1: "float_mul lit_1e_6 10 < lit_1e_4"
  by code_simp

lemma below_threshold_2: "float_mul (float_mul lit_1e_6 10) 10 < lit_1e_4"
  by code_simp

lemma above_threshold_3: "lit_1e_4 \<le> float_mul (float_mul (float_mul lit_1e_6 10) 10) 10"
  by code_simp

section \<open>The retry loop of \<^verbatim>\<open>predict\<close>\<close>

text \<open>One turn of the loop, by the outcome of the attempt.\<close>

lemma predict_retry_success:
  "S eps g = (Inr s, g') \<Longrightarrow> predict_retry S eb eps g = Some (Inr s, eb, g')"
  by (subst predict_retry.simps) simp

lemma predict_retry_escalate:
  "S eps g = (Inl e, g') \<Longrightarrow> is_Exception e \<Longrightarrow> \<not> lit_1e_3 < float_mul eps 10 \<Longrightarrow>
   predict_retry S eb eps g = predict_retry S eb (float_mul eps 10) g'"
  by (subst predict_retry.simps) (simp add: Let_def)

lemma predict_retry_ceiling:
  "S eps g = (Inl e, g') \<Longrightarrow> is_Exception e \<Longrightarrow> lit_1e_3 < float_mul eps 10 \<Longrightarrow>
   predict_retry S eb eps g = Some (Inl e, eb, g')"
  by (subst predict_retry.simps) (simp add: Let_def)

lemma predict_retry_uncaught:
  "S eps g = (Inl e, g') \<Longrightarrow> \<not> is_Exception e \<Longrightarrow>
   predict_retry S eb eps g = Some (Inl e, eps, g')"
  by (subst predict_retry.simps) simp

text \<open>Whenever the loop is left with samples or with an exception of the class
  \<^verbatim>\<open>Exception\<close>, \<^verbatim>\<open>B.epsilon\<close> holds \<open>epsilon_before\<close>.\<close>

lemma predict_retry_restores:
  assumes "predict_retry S eb eps g = Some y"
  shows "(\<forall>e. fst y = Inl e \<longrightarrow> is_Exception e) \<longrightarrow> fst (snd y) = eb"
  by (rule predict_retry.raw_induct
        [where P = "\<lambda>S eb eps g y. (\<forall>e. fst y = Inl e \<longrightarrow> is_Exception e) \<longrightarrow> fst (snd y) = eb",
         OF _ assms])
     (auto split: prod.splits sum.splits if_splits simp: Let_def)

text \<open>The run of the loop on \<open>threshold_sampler\<close> from \<^verbatim>\<open>1e-6\<close>: four attempts.\<close>

lemma threshold_run:
  "predict_retry threshold_sampler lit_1e_6 lit_1e_6 [] =
     Some (Inr (sym_op ''samples'' []), lit_1e_6,
           [lit_1e_6, float_mul lit_1e_6 10, float_mul (float_mul lit_1e_6 10) 10,
            float_mul (float_mul (float_mul lit_1e_6 10) 10) 10])"
  using predict_retry_escalate [of threshold_sampler lit_1e_6 "[]" LinAlgError _ lit_1e_6]
    predict_retry_escalate [of threshold_sampler "float_mul lit_1e_6 10" "[lit_1e_6]"
      LinAlgError _ lit_1e_6]
    predict_retry_escalate [of threshold_sampler "float_mul (float_mul lit_1e_6 10) 10"
      "[lit_1e_6, float_mul lit_1e_6 10]" LinAlgError _ lit_1e_6]
    predict_retry_success [of threshold_sampler
      "float_mul (float_mul (float_mul lit_1e_6 10) 10) 10"
      "[lit_1e_6, float_mul lit_1e_6 10, float_mul (float_mul lit_1e_6 10) 10]" _ _ lit_1e_6]
    below_threshold_0 below_threshold_1 below_threshold_2 above_threshold_3
    below_ceiling_1 below_ceiling_2 below_ceiling_3
  by (simp add: threshold_sampler_def)

section \<open>Claims\<close>

text \<open>
  C4, as the code behaves. The loop starts at \<^verbatim>\<open>B.epsilon = 1e-6\<close>. If every attempt
  below \<^verbatim>\<open>1e-4\<close> raises an \<^verbatim>\<open>Exception\<close> and every attempt at or above \<^verbatim>\<open>1e-4\<close>
  succeeds, the attempts at \<^verbatim>\<open>1e-6\<close> and after one and after two escalations fail
  (two products by ten give \<^verbatim>\<open>9.999999999999999e-05\<close>, which is below \<^verbatim>\<open>1e-4\<close>),
  the attempt after the third escalation succeeds, and the loop returns its samples
  with \<^verbatim>\<open>B.epsilon\<close> back at \<^verbatim>\<open>1e-6\<close>. If every attempt raises an \<^verbatim>\<open>Exception\<close>,
  four attempts are made; the third escalation does not exceed \<^verbatim>\<open>1e-3\<close>, the fourth
  does, and the loop then re-raises the exception of the fourth, last attempt with
  \<^verbatim>\<open>B.epsilon\<close> back at \<^verbatim>\<open>1e-6\<close>.
\<close>

theorem retry_from_1e_6:
  fixes sample :: "('g, 'a) eff"
  shows
  "((\<forall>eps g. eps < lit_1e_4 \<longrightarrow> (\<exists>e. is_Exception e \<and> fst (sample eps g) = Inl e)) \<and>
    (\<forall>eps g. lit_1e_4 \<le> eps \<longrightarrow> (\<exists>s. fst (sample eps g) = Inr s))
    \<longrightarrow> (\<exists>e0 g1 e1 g2 e2 g3 s g4.
          sample lit_1e_6 g0 = (Inl e0, g1) \<and>
          sample (float_mul lit_1e_6 10) g1 = (Inl e1, g2) \<and>
          sample (float_mul (float_mul lit_1e_6 10) 10) g2 = (Inl e2, g3) \<and>
          sample (float_mul (float_mul (float_mul lit_1e_6 10) 10) 10) g3 = (Inr s, g4) \<and>
          predict_retry sample lit_1e_6 lit_1e_6 g0 = Some (Inr s, lit_1e_6, g4))) \<and>
   ((\<forall>eps g. \<exists>e. is_Exception e \<and> fst (sample eps g) = Inl e)
    \<longrightarrow> (\<exists>e0 g1 e1 g2 e2 g3 e3 g4.
          sample lit_1e_6 g0 = (Inl e0, g1) \<and>
          sample (float_mul lit_1e_6 10) g1 = (Inl e1, g2) \<and>
          sample (float_mul (float_mul lit_1e_6 10) 10) g2 = (Inl e2, g3) \<and>
          sample (float_mul (float_mul (float_mul lit_1e_6 10) 10) 10) g3 = (Inl e3, g4) \<and>
          \<not> lit_1e_3 < float_mul (float_mul (float_mul lit_1e_6 10) 10) 10 \<and>
          lit_1e_3 < float_mul (float_mul (float_mul (float_mul lit_1e_6 10) 10) 10) 10 \<and>
          predict_retry sample lit_1e_6 lit_1e_6 g0 = Some (Inl e3, lit_1e_6, g4)))"
proof (intro conjI impI)
  assume H: "(\<forall>eps g. eps < lit_1e_4 \<longrightarrow> (\<exists>e. is_Exception e \<and> fst (sample eps g) = Inl e)) \<and>
    (\<forall>eps g. lit_1e_4 \<le> eps \<longrightarrow> (\<exists>s. fst (sample eps g) = Inr s))"
  obtain e0 g1 where a0: "sample lit_1e_6 g0 = (Inl e0, g1)" "is_Exception e0"
    using H below_threshold_0 by (metis prod.collapse)
  obtain e1 g2 where a1: "sample (float_mul lit_1e_6 10) g1 = (Inl e1, g2)" "is_Exception e1"
    using H below_threshold_1 by (metis prod.collapse)
  obtain e2 g3 where a2: "sample (float_mul (float_mul lit_1e_6 10) 10) g2 = (Inl e2, g3)"
      "is_Exception e2"
    using H below_threshold_2 by (metis prod.collapse)
  obtain s g4 where a3:
      "sample (float_mul (float_mul (float_mul lit_1e_6 10) 10) 10) g3 = (Inr s, g4)"
    using H above_threshold_3 by (metis prod.collapse)
  have "predict_retry sample lit_1e_6 lit_1e_6 g0 = Some (Inr s, lit_1e_6, g4)"
    using predict_retry_escalate [of sample lit_1e_6 g0 e0 g1 lit_1e_6]
      predict_retry_escalate [of sample "float_mul lit_1e_6 10" g1 e1 g2 lit_1e_6]
      predict_retry_escalate [of sample "float_mul (float_mul lit_1e_6 10) 10" g2 e2 g3 lit_1e_6]
      predict_retry_success [of sample "float_mul (float_mul (float_mul lit_1e_6 10) 10) 10" g3 s g4
        lit_1e_6]
      a0 a1 a2 a3 below_ceiling_1 below_ceiling_2 below_ceiling_3
    by simp
  with a0 a1 a2 a3 show "\<exists>e0 g1 e1 g2 e2 g3 s g4.
          sample lit_1e_6 g0 = (Inl e0, g1) \<and>
          sample (float_mul lit_1e_6 10) g1 = (Inl e1, g2) \<and>
          sample (float_mul (float_mul lit_1e_6 10) 10) g2 = (Inl e2, g3) \<and>
          sample (float_mul (float_mul (float_mul lit_1e_6 10) 10) 10) g3 = (Inr s, g4) \<and>
          predict_retry sample lit_1e_6 lit_1e_6 g0 = Some (Inr s, lit_1e_6, g4)"
    by blast
next
  assume H: "\<forall>eps g. \<exists>e. is_Exception e \<and> fst (sample eps g) = Inl e"
  obtain e0 g1 where a0: "sample lit_1e_6 g0 = (Inl e0, g1)" "is_Exception e0"
    using H by (metis prod.collapse)
  obtain e1 g2 where a1: "sample (float_mul lit_1e_6 10) g1 = (Inl e1, g2)" "is_Exception e1"
    using H by (metis prod.collapse)
  obtain e2 g3 where a2: "sample (float_mul (float_mul lit_1e_6 10) 10) g2 = (Inl e2, g3)"
      "is_Exception e2"
    using H by (metis prod.collapse)
  obtain e3 g4 where a3:
      "sample (float_mul (float_mul (float_mul lit_1e_6 10) 10) 10) g3 = (Inl e3, g4)"
      "is_Exception e3"
    using H by (metis prod.collapse)
  have "predict_retry sample lit_1e_6 lit_1e_6 g0 = Some (Inl e3, lit_1e_6, g4)"
    using predict_retry_escalate [of sample lit_1e_6 g0 e0 g1 lit_1e_6]
      predict_retry_escalate [of sample "float_mul lit_1e_6 10" g1 e1 g2 lit_1e_6]
      predict_retry_escalate [of sample "float_mul (float_mul lit_1e_6 10) 10" g2 e2 g3 lit_1e_6]
      predict_retry_ceiling [of sample "float_mul (float_mul (float_mul lit_1e_6 10) 10) 10" g3 e3 g4
        lit_1e_6]
      a0 a1 a2 a3 below_ceiling_1 below_ceiling_2 below_ceiling_3 above_ceiling_4
    by simp
  with a0 a1 a2 a3 below_ceiling_3 above_ceiling_4 show "\<exists>e0 g1 e1 g2 e2 g3 e3 g4.
          sample lit_1e_6 g0 = (Inl e0, g1) \<and>
          sample (float_mul lit_1e_6 10) g1 = (Inl e1, g2) \<and>
          sample (float_mul (float_mul lit_1e_6 10) 10) g2 = (Inl e2, g3) \<and>
          sample (float_mul (float_mul (float_mul lit_1e_6 10) 10) 10) g3 = (Inl e3, g4) \<and>
          \<not> lit_1e_3 < float_mul (float_mul (float_mul lit_1e_6 10) 10) 10 \<and>
          lit_1e_3 < float_mul (float_mul (float_mul (float_mul lit_1e_6 10) 10) 10) 10 \<and>
          predict_retry sample lit_1e_6 lit_1e_6 g0 = Some (Inl e3, lit_1e_6, g4)"
    by blast
qed

theorem retry_from_1e_6_witness:
  "(\<exists>g4. predict_retry threshold_sampler lit_1e_6 lit_1e_6 [] =
      Some (Inr (sym_op ''samples'' []), lit_1e_6, g4)) \<and>
   (\<exists>g4. predict_retry counting_sampler lit_1e_6 lit_1e_6 [] =
      Some (Inl (OtherException 3), lit_1e_6, g4))"
proof -
  have h1: "\<forall>eps g. eps < lit_1e_4 \<longrightarrow>
      (\<exists>e. is_Exception e \<and> fst (threshold_sampler eps g) = Inl e)"
    by (simp add: threshold_sampler_def)
  have h2: "\<forall>eps g. lit_1e_4 \<le> eps \<longrightarrow> (\<exists>s. fst (threshold_sampler eps g) = Inr s)"
    by (simp add: threshold_sampler_def)
  have h3: "\<forall>eps g. \<exists>e. is_Exception e \<and> fst (counting_sampler eps g) = Inl e"
    by (simp add: counting_sampler_def)
  have r1: "\<exists>g4. predict_retry threshold_sampler lit_1e_6 lit_1e_6 [] =
      Some (Inr (sym_op ''samples'' []), lit_1e_6, g4)"
    using retry_from_1e_6 [of threshold_sampler "[]"] h1 h2
    by (auto simp: threshold_sampler_def split: if_splits)
  have r2: "\<exists>g4. predict_retry counting_sampler lit_1e_6 lit_1e_6 [] =
      Some (Inl (OtherException 3), lit_1e_6, g4)"
    using retry_from_1e_6 [of counting_sampler "[]"] h3
    by (auto simp: counting_sampler_def)
  from r1 r2 show ?thesis by (rule conjI)
qed

text \<open>
  C4 as stated fails: with the sampler that fails below \<^verbatim>\<open>1e-4\<close> and succeeds from
  there on, the third attempt, made after two escalations, still fails, and the loop
  returns only after a fourth attempt, that is after three escalations.
\<close>

theorem retry_two_escalations_counterexample:
  "float_mul (float_mul lit_1e_6 10) 10 < lit_1e_4 \<and>
   fst (threshold_sampler (float_mul (float_mul lit_1e_6 10) 10)
          [lit_1e_6, float_mul lit_1e_6 10]) = Inl LinAlgError \<and>
   predict_retry threshold_sampler lit_1e_6 lit_1e_6 [] =
     Some (Inr (sym_op ''samples'' []), lit_1e_6,
           [lit_1e_6, float_mul lit_1e_6 10, float_mul (float_mul lit_1e_6 10) 10,
            float_mul (float_mul (float_mul lit_1e_6 10) 10) 10])"
  using threshold_run below_threshold_2 by (simp add: threshold_sampler_def)


text \<open>
  C10. Whatever exception of the class \<^verbatim>\<open>Exception\<close> an attempt raises, a numerical
  failure or a programming error alike, the handler escalates \<^verbatim>\<open>B.epsilon\<close> by ten;
  the exception is re-raised, with \<^verbatim>\<open>B.epsilon\<close> reset, exactly when the escalated
  value exceeds \<^verbatim>\<open>1e-3\<close>, and otherwise the loop tries again.
\<close>

theorem retry_catches_every_Exception:
  assumes "is_Exception e" and "sample eps g = (Inl e, g')"
  shows "predict_retry sample epsilon_before eps g =
           (if lit_1e_3 < float_mul eps 10 then Some (Inl e, epsilon_before, g')
            else predict_retry sample epsilon_before (float_mul eps 10) g')"
  using assms by (subst predict_retry.simps) (simp add: Let_def)

lemma above_ceiling_from_1e_3: "lit_1e_3 < float_mul lit_1e_3 10"
  by code_simp

theorem retry_catches_every_Exception_witness:
  "is_Exception TypeError \<and>
   failing_sampler TypeError lit_1e_3 [] = (Inl TypeError, [lit_1e_3]) \<and>
   predict_retry (failing_sampler TypeError) lit_1e_6 lit_1e_3 [] =
     Some (Inl TypeError, lit_1e_6, [lit_1e_3])"
  using retry_catches_every_Exception [of TypeError "failing_sampler TypeError" lit_1e_3 "[]"
      "[lit_1e_3]" lit_1e_6] above_ceiling_from_1e_3
  by (simp add: failing_sampler_def)

text \<open>
  C3. Whenever \<^verbatim>\<open>predict\<close> returns its triple or raises an exception of the class
  \<^verbatim>\<open>Exception\<close>, \<^verbatim>\<open>B.epsilon\<close> after the call is \<^verbatim>\<open>B.epsilon\<close> before the call.
  That covers the exits before the loop, the exit with samples and the exit that
  re-raises once the ceiling is exceeded. It holds for every global scope, the one
  of the module included.
\<close>

theorem predict_restores_epsilon:
  assumes "predict E G model xc yc xt pred_num_samples num_samples epsilon g = Some (r, epsilon', g')"
    and "\<forall>e. r = Inl e \<longrightarrow> is_Exception e"
  shows "epsilon' = epsilon"
proof (cases "predict_prepare E G model xc yc xt pred_num_samples num_samples epsilon g")
  case (Pair a g1)
  show ?thesis
  proof (cases a)
    case (Inl e)
    with Pair assms show ?thesis by (simp add: predict_def)
  next
    case (Inr t)
    obtain mean var pn where t: "t = (mean, var, pn)" by (cases t) auto
    from assms(1) Pair Inr t obtain y where
      y: "predict_retry (call_sample E pn) epsilon epsilon g1 = Some y"
      by (auto simp: predict_def split: option.splits)
    from predict_retry_restores [OF y] assms Pair Inr t y show ?thesis
      by (auto simp: predict_def split: option.splits prod.splits sum.splits)
  qed
qed

lemmas eff_defs = eff_bind_def eff_lift_def eff_return_def eff_raise_def

text \<open>A run of \<^verbatim>\<open>predict\<close> that reaches the loop and escalates three times before
  the draw succeeds.\<close>

lemma jitter_prepare:
  "\<exists>m v pn. predict_prepare jitter_ext patched_globals sym_model
      (data ''xc'' 5) (data ''yc'' 5) (data ''xt'' 7) 50 5 lit_1e_6 0 = (Inr (m, v, Dist pn), 2)"
  by (simp add: predict_prepare_def Model_call_def eff_defs jitter_ext_def sym_ext_def
      sym_model_def patched_globals_def load_name_def u_sample_def Let_def)

lemma jitter_retry:
  "\<exists>s. predict_retry (call_sample jitter_ext (Dist pn)) lit_1e_6 lit_1e_6 g =
     Some (Inr s, lit_1e_6, Suc (Suc (Suc (Suc g))))"
  using predict_retry_escalate [of "call_sample jitter_ext (Dist pn)" lit_1e_6 g LinAlgError
      "Suc g" lit_1e_6]
    predict_retry_escalate [of "call_sample jitter_ext (Dist pn)" "float_mul lit_1e_6 10" "Suc g"
      LinAlgError "Suc (Suc g)" lit_1e_6]
    predict_retry_escalate [of "call_sample jitter_ext (Dist pn)"
      "float_mul (float_mul lit_1e_6 10) 10" "Suc (Suc g)" LinAlgError "Suc (Suc (Suc g))" lit_1e_6]
    predict_retry_success [of "call_sample jitter_ext (Dist pn)"
      "float_mul (float_mul (float_mul lit_1e_6 10) 10) 10" "Suc (Suc (Suc g))" _
      "Suc (Suc (Suc (Suc g)))" lit_1e_6]
    below_threshold_0 below_threshold_1 below_threshold_2 above_threshold_3
    below_ceiling_1 below_ceiling_2 below_ceiling_3
  by (simp add: jitter_ext_def sym_ext_def)

lemma jitter_predict:
  "\<exists>r eps'. predict jitter_ext patched_globals sym_model
      (data ''xc'' 5) (data ''yc'' 5) (data ''xt'' 7) 50 5 lit_1e_6 0 = Some (Inr r, eps', 6)"
proof -
  obtain m v pn where p: "predict_prepare jitter_ext patched_globals sym_model
      (data ''xc'' 5) (data ''yc'' 5) (data ''xt'' 7) 50 5 lit_1e_6 0 = (Inr (m, v, Dist pn), 2)"
    using jitter_prepare by blast
  obtain s where "predict_retry (call_sample jitter_ext (Dist pn)) lit_1e_6 lit_1e_6 2 =
     Some (Inr s, lit_1e_6, Suc (Suc (Suc (Suc 2))))"
    using jitter_retry by blast
  with p show ?thesis by (simp add: predict_def)
qed

theorem predict_restores_epsilon_witness:
  "\<exists>r. predict jitter_ext patched_globals sym_model
      (data ''xc'' 5) (data ''yc'' 5) (data ''xt'' 7) 50 5 lit_1e_6 0 = Some (Inr r, lit_1e_6, 6)"
proof -
  obtain r eps' where p: "predict jitter_ext patched_globals sym_model
      (data ''xc'' 5) (data ''yc'' 5) (data ''xt'' 7) 50 5 lit_1e_6 0 = Some (Inr r, eps', 6)"
    using jitter_predict by blast
  have "eps' = lit_1e_6"
    using predict_restores_epsilon [OF p] by simp
  with p show ?thesis by blast
qed

text \<open>An exception outside the class \<^verbatim>\<open>Exception\<close> is not handled: raised by an
  attempt after one escalation, it leaves \<^verbatim>\<open>predict\<close>'s loop with the escalated
  \<^verbatim>\<open>B.epsilon\<close>.\<close>

lemma retry_interrupt_keeps_escalation:
  "predict_retry
     (\<lambda>eps g. (if eps = lit_1e_6 then Inl LinAlgError
                else (Inl KeyboardInterrupt :: py_exception + unit), g))
     lit_1e_6 lit_1e_6 () = Some (Inl KeyboardInterrupt, float_mul lit_1e_6 10, ())"
proof -
  let ?S = "\<lambda>(eps :: py_float) (g :: unit).
    (if eps = lit_1e_6 then Inl LinAlgError else Inl KeyboardInterrupt
       :: py_exception + unit, g)"
  have ne: "float_mul lit_1e_6 10 \<noteq> lit_1e_6"
    by code_simp
  have a: "predict_retry ?S lit_1e_6 lit_1e_6 () =
      predict_retry ?S lit_1e_6 (float_mul lit_1e_6 10) ()"
    by (rule predict_retry_escalate [where e = LinAlgError]) (simp_all add: below_ceiling_1)
  have b: "predict_retry ?S lit_1e_6 (float_mul lit_1e_6 10) () =
      Some (Inl KeyboardInterrupt, float_mul lit_1e_6 10, ())"
    by (rule predict_retry_uncaught) (simp_all add: ne)
  from a b show ?thesis by (rule trans)
qed

text \<open>
  C1. In the global scope that \<^verbatim>\<open>model.py\<close> sets up, \<^verbatim>\<open>predict\<close> never returns its
  triple: when the first call of the model fails, that failure propagates; when it
  yields a distribution, evaluating the first argument \<^verbatim>\<open>batch["xc"]\<close> of the second
  call raises \<^verbatim>\<open>NameError\<close>, before the model is called again.
\<close>

lemma module_globals_unbound: "module_globals ''batch'' = None"
  by (simp add: module_globals_def module_names_def)

theorem predict_raises_NameError:
  "predict E module_globals model xc yc xt pred_num_samples num_samples epsilon g =
     (case Model_call E model xc yc xt pred_num_samples PNone PNone Map.empty epsilon g of
        (Inl e, g') \<Rightarrow> Some (Inl e, epsilon, g')
      | (Inr pred, g') \<Rightarrow>
          (case pred of
             Dist d \<Rightarrow> Some (Inl (NameError ''batch''), epsilon, g')
           | _ \<Rightarrow> Some (Inl (AttributeError ''mean''), epsilon, g')))"
  by (simp add: predict_def predict_prepare_def eff_bind_def eff_lift_def load_name_def
      module_globals_unbound Let_def split: prod.splits sum.splits pyval.splits)

lemma predict_module_run:
  "predict sym_ext module_globals sym_model (data ''xc'' 5) (data ''yc'' 5) (data ''xt'' 7) 50 5
     lit_1e_6 0 = Some (Inl (NameError ''batch''), lit_1e_6, 1)"
  by (simp add: predict_def predict_prepare_def Model_call_def eff_defs sym_ext_def
      sym_model_def module_globals_def module_names_def load_name_def u_sample_def Let_def)

section \<open>The KL helper\<close>

lemma u_kl_zip_atomic:
  "u_kl_zip E (map Dist qs) (map Dist ps) = Inr (map (\<lambda>(q, p). dist_kl E q p) (zip qs ps))"
proof (induction qs arbitrary: ps)
  case Nil
  show ?case by simp
next
  case (Cons q qs)
  show ?case by (cases ps) (simp_all add: Cons.IH)
qed

text \<open>
  C2, as the code behaves. For \<^verbatim>\<open>Parallel\<close> operands with atomic branches, of any
  two branch counts, \<^verbatim>\<open>_kl\<close> returns the sum, from the left and seeded at 0, of the KL
  divergences of the branch pairs that \<^verbatim>\<open>zip\<close> forms: the pairs at equal positions up
  to the shorter count. With equal counts these are all the branches. No length is
  checked and no error is raised when the counts differ.
\<close>

theorem kl_parallel_sum:
  "u_kl E (Parallel (map Dist qs)) (Parallel (map Dist ps)) =
     Inr (foldl (op_add E) (PInt 0) (map (\<lambda>(q, p). dist_kl E q p) (zip qs ps)))"
  by (simp add: u_kl_zip_atomic py_sum_def)

text \<open>C2 as stated fails: with two branches against one, \<^verbatim>\<open>_kl\<close> returns the KL
  divergence of the first pair added to 0 instead of failing.\<close>

theorem kl_length_mismatch_counterexample:
  "u_kl sym_ext (Parallel [Dist (Sym ''q1'' []), Dist (Sym ''q2'' [])])
                (Parallel [Dist (Sym ''p1'' [])]) =
     Inr (Tensor (Sym ''add'' [SInt 0, Sym ''kl'' [Sym ''q1'' [], Sym ''p1'' []]]))"
  by (simp add: py_sum_def sym_ext_def sym_op_def)


section \<open>The sampling helper\<close>

text \<open>The states between the draws of the branches: branch \<open>i\<close> is drawn in the state
  that the draw of branch \<open>i - 1\<close> left.\<close>

lemma u_sample_list_chain:
  "u_sample_list E xs num eps g = (Inr zs, g') \<Longrightarrow>
   \<exists>gs. length zs = length xs \<and> length gs = Suc (length xs) \<and> gs ! 0 = g \<and>
        gs ! length xs = g' \<and>
        (\<forall>i < length xs. u_sample_num E (xs ! i) num eps (gs ! i) = (Inr (zs ! i), gs ! Suc i))"
proof (induction xs arbitrary: zs g)
  case Nil
  then show ?case
    by (auto simp: eff_return_def intro: exI [of _ "[g]"])
next
  case (Cons x xs)
  from Cons.prems obtain z g1 zs' where
    x: "u_sample_num E x num eps g = (Inr z, g1)" and
    r: "u_sample_list E xs num eps g1 = (Inr zs', g')" and
    zs: "zs = z # zs'"
    by (auto simp: eff_bind_def eff_return_def split: prod.splits sum.splits)
  from Cons.IH [OF r] obtain gs where
    gs: "length zs' = length xs" "length gs = Suc (length xs)" "gs ! 0 = g1"
      "gs ! length xs = g'"
      "\<forall>i < length xs. u_sample_num E (xs ! i) num eps (gs ! i) = (Inr (zs' ! i), gs ! Suc i)"
    by blast
  have "\<forall>i < length (x # xs).
      u_sample_num E ((x # xs) ! i) num eps ((g # gs) ! i) = (Inr (zs ! i), (g # gs) ! Suc i)"
  proof (intro allI impI)
    fix i assume "i < length (x # xs)"
    then show "u_sample_num E ((x # xs) ! i) num eps ((g # gs) ! i) =
        (Inr (zs ! i), (g # gs) ! Suc i)"
      using x gs zs by (cases i) auto
  qed
  with gs zs show ?case
    by (intro exI [of _ "g # gs"]) auto
qed

text \<open>
  C9. When \<^verbatim>\<open>_sample\<close> returns on a \<^verbatim>\<open>Parallel\<close> of \<open>n\<close> branches, the result is a
  \<^verbatim>\<open>Parallel\<close> of \<open>n\<close> elements, and element \<open>i\<close> is what \<^verbatim>\<open>_sample\<close> returns on
  branch \<open>i\<close> with the same \<open>num\<close>, the branches being drawn one after the other in
  branch order. Leaving \<open>num\<close> out is the same as passing 1. On an atomic
  distribution \<^verbatim>\<open>_sample\<close> returns the value of the distribution's own
  \<^verbatim>\<open>sample(num=num)\<close> as it is, for \<open>num = 1\<close> too: nothing is squeezed.
\<close>

theorem sample_parallel_structure:
  "(u_sample E (Parallel xs) (Some num) eps g = (Inr r, g') \<longrightarrow>
      (\<exists>zs gs. r = Parallel zs \<and> length zs = length xs \<and> length gs = Suc (length xs) \<and>
         gs ! 0 = g \<and> gs ! length xs = g' \<and>
         (\<forall>i < length xs.
            u_sample E (xs ! i) (Some num) eps (gs ! i) = (Inr (zs ! i), gs ! Suc i)))) \<and>
   u_sample E x None = u_sample E x (Some 1) \<and>
   u_sample E (Dist d) (Some num) = dist_sample E d (Some num)"
proof (intro conjI impI)
  assume a: "u_sample E (Parallel xs) (Some num) eps g = (Inr r, g')"
  then obtain zs where r: "r = Parallel zs" and l: "u_sample_list E xs num eps g = (Inr zs, g')"
    by (auto simp: u_sample_def eff_bind_def eff_return_def split: prod.splits sum.splits)
  from u_sample_list_chain [OF l] r
  show "\<exists>zs gs. r = Parallel zs \<and> length zs = length xs \<and> length gs = Suc (length xs) \<and>
         gs ! 0 = g \<and> gs ! length xs = g' \<and>
         (\<forall>i < length xs.
            u_sample E (xs ! i) (Some num) eps (gs ! i) = (Inr (zs ! i), gs ! Suc i))"
    by (auto simp: u_sample_def)
qed (simp_all add: u_sample_def)

theorem sample_parallel_structure_witness:
  "u_sample sym_ext (Parallel [Dist (Sym ''p1'' []), Dist (Sym ''p2'' [])]) (Some 3) lit_1e_6 0 =
     (Inr (Parallel [Tensor (Sym ''sample'' [Sym ''p1'' [], SInt 3, SInt 0]),
                     Tensor (Sym ''sample'' [Sym ''p2'' [], SInt 3, SInt 1])]), 2) \<and>
   (\<exists>zs gs. Parallel [Tensor (Sym ''sample'' [Sym ''p1'' [], SInt 3, SInt 0]),
                      Tensor (Sym ''sample'' [Sym ''p2'' [], SInt 3, SInt 1])] = Parallel zs \<and>
      length zs = 2 \<and> length gs = 3 \<and> gs ! 0 = 0 \<and> gs ! 2 = 2 \<and>
      u_sample sym_ext (Dist (Sym ''p1'' [])) (Some 3) lit_1e_6 (gs ! 0) =
        (Inr (zs ! 0), gs ! 1) \<and>
      u_sample sym_ext (Dist (Sym ''p2'' [])) (Some 3) lit_1e_6 (gs ! 1) =
        (Inr (zs ! 1), gs ! 2))"
proof -
  have run: "u_sample sym_ext (Parallel [Dist (Sym ''p1'' []), Dist (Sym ''p2'' [])]) (Some 3)
      lit_1e_6 0 =
     (Inr (Parallel [Tensor (Sym ''sample'' [Sym ''p1'' [], SInt 3, SInt 0]),
                     Tensor (Sym ''sample'' [Sym ''p2'' [], SInt 3, SInt 1])]), 2)"
    by (simp add: u_sample_def eff_bind_def eff_return_def sym_ext_def)
  note inst = sample_parallel_structure [of sym_ext "[Dist (Sym ''p1'' []), Dist (Sym ''p2'' [])]" 3
      lit_1e_6 0 "Parallel [Tensor (Sym ''sample'' [Sym ''p1'' [], SInt 3, SInt 0]),
                     Tensor (Sym ''sample'' [Sym ''p2'' [], SInt 3, SInt 1])]" 2
      "Dist (Sym ''p1'' [])" "Sym ''p1'' []"]
  from inst [THEN conjunct1, THEN mp, OF run] obtain zs gs where
    z: "Parallel [Tensor (Sym ''sample'' [Sym ''p1'' [], SInt 3, SInt 0]),
                  Tensor (Sym ''sample'' [Sym ''p2'' [], SInt 3, SInt 1])] = Parallel zs" and
    l: "length zs = length [Dist (Sym ''p1'' []), Dist (Sym ''p2'' []) :: (sym, sym) pyval]"
       "length gs = Suc (length [Dist (Sym ''p1'' []), Dist (Sym ''p2'' []) :: (sym, sym) pyval])"
       "gs ! 0 = 0"
       "gs ! length [Dist (Sym ''p1'' []), Dist (Sym ''p2'' []) :: (sym, sym) pyval] = 2" and
    a: "\<forall>i < length [Dist (Sym ''p1'' []), Dist (Sym ''p2'' []) :: (sym, sym) pyval].
         u_sample sym_ext ([Dist (Sym ''p1'' []), Dist (Sym ''p2'' [])] ! i) (Some 3)
           lit_1e_6 (gs ! i) = (Inr (zs ! i), gs ! Suc i)"
    by (elim exE conjE)
  from l have l': "length zs = 2" "length gs = 3" "gs ! 0 = 0" "gs ! 2 = 2"
    by (simp_all add: numeral_2_eq_2)
  from a [rule_format, of 0] have a0:
    "u_sample sym_ext (Dist (Sym ''p1'' [])) (Some 3) lit_1e_6 (gs ! 0) = (Inr (zs ! 0), gs ! 1)"
    by simp
  from a [rule_format, of 1] have a1:
    "u_sample sym_ext (Dist (Sym ''p2'' [])) (Some 3) lit_1e_6 (gs ! 1) = (Inr (zs ! 1), gs ! 2)"
    by (simp add: numeral_2_eq_2)
  from z l' a0 a1 have ex: "\<exists>zs gs.
      Parallel [Tensor (Sym ''sample'' [Sym ''p1'' [], SInt 3, SInt 0]),
                Tensor (Sym ''sample'' [Sym ''p2'' [], SInt 3, SInt 1])] = Parallel zs \<and>
      length zs = 2 \<and> length gs = 3 \<and> gs ! 0 = 0 \<and> gs ! 2 = 2 \<and>
      u_sample sym_ext (Dist (Sym ''p1'' [])) (Some 3) lit_1e_6 (gs ! 0) =
        (Inr (zs ! 0), gs ! 1) \<and>
      u_sample sym_ext (Dist (Sym ''p2'' [])) (Some 3) lit_1e_6 (gs ! 1) =
        (Inr (zs ! 1), gs ! 2)"
    by (intro exI conjI)
  from conjI [OF run ex] show ?thesis .
qed

section \<open>The call of the model\<close>

text \<open>
  C8. When \<^verbatim>\<open>Model.__call__\<close> returns a distribution \<open>d\<close>, the encoder was coded
  on the caller's \<open>xc\<close>, \<open>yc\<close> and on \<open>xt\<close> (wrapped with \<open>aux_t\<close> when that is
  given) with the options \<open>kw_args\<close> without \<^verbatim>\<open>noiseless\<close>, every other option as
  supplied; the encoding was sampled \<open>num_samples\<close> times; and the decoder was coded
  on the sample and the same targets with \<open>kw_args\<close> as supplied, \<^verbatim>\<open>noiseless\<close>
  included, and returned \<open>d\<close>. Values are immutable here: \<open>xc\<close>, \<open>yc\<close> and \<open>xt\<close>
  reach both stages as the caller passed them.
\<close>

theorem Model_call_options:
  assumes "Model_call E self xc yc xt num_samples aux_t dtype_enc_sample kw_args eps g =
             (Inr d, g3)"
  shows "\<exists>xz pz g1 z g2 u.
      code E (encoder self) xc yc (if aux_t \<noteq> PNone then AugmentedInput xt aux_t else xt)
        (kw_args(''noiseless'' := None)) eps g = (Inr (xz, pz), g1) \<and>
      u_sample E pz (Some num_samples) eps g1 = (Inr z, g2) \<and>
      code E (decoder self) xz
        (if py_truthy dtype_enc_sample then B_cast E dtype_enc_sample z else z)
        (if aux_t \<noteq> PNone then AugmentedInput xt aux_t else xt) kw_args eps g2 = (Inr (u, d), g3) \<and>
      (kw_args(''noiseless'' := None)) ''noiseless'' = None \<and>
      (\<forall>k. k \<noteq> ''noiseless'' \<longrightarrow> (kw_args(''noiseless'' := None)) k = kw_args k)"
proof -
  have e: "(if ''noiseless'' \<in> dom kw_args then kw_args(''noiseless'' := None) else kw_args) =
      kw_args(''noiseless'' := None)"
    by (auto simp: fun_eq_iff)
  from assms obtain xz pz g1 z g2 u where
    "code E (encoder self) xc yc (if aux_t \<noteq> PNone then AugmentedInput xt aux_t else xt)
        (kw_args(''noiseless'' := None)) eps g = (Inr (xz, pz), g1)"
    "u_sample E pz (Some num_samples) eps g1 = (Inr z, g2)"
    "code E (decoder self) xz
        (if py_truthy dtype_enc_sample then B_cast E dtype_enc_sample z else z)
        (if aux_t \<noteq> PNone then AugmentedInput xt aux_t else xt) kw_args eps g2 = (Inr (u, d), g3)"
    unfolding Model_call_def Let_def e
    by (auto simp: eff_bind_def eff_return_def split: prod.splits sum.splits)
  then show ?thesis by (intro exI conjI allI impI) simp_all
qed

lemma Model_call_sym_run:
  "Model_call sym_ext sym_model (data ''xc'' 5) (data ''yc'' 5) (data ''xt'' 7) 3 PNone PNone
     [''noiseless'' \<mapsto> PBool True, ''extra'' \<mapsto> PInt 4] lit_1e_6 0 =
     (Inr (Dist (Sym ''code''
        [Sym ''dec'' [], Sym ''xz'' [Sym ''xc'' [SInt 5], Sym ''xt'' [SInt 7]],
         Sym ''sample''
           [Sym ''code'' [Sym ''enc'' [], Sym ''xc'' [SInt 5], Sym ''yc'' [SInt 5],
                          Sym ''xt'' [SInt 7], Sym ''kw'' [Sym ''extra'' [SInt 4]]],
            SInt 3, SInt 0],
         Sym ''xt'' [SInt 7],
         Sym ''kw'' [Sym ''noiseless'' [Sym ''True'' []], Sym ''extra'' [SInt 4]]])), 1)"
  by (simp add: Model_call_def eff_bind_def eff_return_def sym_ext_def sym_model_def
      u_sample_def sym_op_def reify_kw_def data_def Let_def)

theorem Model_call_options_witness:
  "Model_call sym_ext sym_model (data ''xc'' 5) (data ''yc'' 5) (data ''xt'' 7) 3 PNone PNone
     [''noiseless'' \<mapsto> PBool True, ''extra'' \<mapsto> PInt 4] lit_1e_6 0 =
     (Inr (Dist (Sym ''code''
        [Sym ''dec'' [], Sym ''xz'' [Sym ''xc'' [SInt 5], Sym ''xt'' [SInt 7]],
         Sym ''sample''
           [Sym ''code'' [Sym ''enc'' [], Sym ''xc'' [SInt 5], Sym ''yc'' [SInt 5],
                          Sym ''xt'' [SInt 7], Sym ''kw'' [Sym ''extra'' [SInt 4]]],
            SInt 3, SInt 0],
         Sym ''xt'' [SInt 7],
         Sym ''kw'' [Sym ''noiseless'' [Sym ''True'' []], Sym ''extra'' [SInt 4]]])), 1) \<and>
   (\<exists>xz pz g1 z g2 u.
      code sym_ext ''enc'' (data ''xc'' 5) (data ''yc'' 5) (data ''xt'' 7)
        ([''noiseless'' \<mapsto> PBool True, ''extra'' \<mapsto> PInt 4](''noiseless'' := None))
        lit_1e_6 0 = (Inr (xz, pz), g1) \<and>
      u_sample sym_ext pz (Some 3) lit_1e_6 g1 = (Inr z, g2) \<and>
      code sym_ext ''dec'' xz z (data ''xt'' 7)
        [''noiseless'' \<mapsto> PBool True, ''extra'' \<mapsto> PInt 4] lit_1e_6 g2 =
        (Inr (u, Dist (Sym ''code''
        [Sym ''dec'' [], Sym ''xz'' [Sym ''xc'' [SInt 5], Sym ''xt'' [SInt 7]],
         Sym ''sample''
           [Sym ''code'' [Sym ''enc'' [], Sym ''xc'' [SInt 5], Sym ''yc'' [SInt 5],
                          Sym ''xt'' [SInt 7], Sym ''kw'' [Sym ''extra'' [SInt 4]]],
            SInt 3, SInt 0],
         Sym ''xt'' [SInt 7],
         Sym ''kw'' [Sym ''noiseless'' [Sym ''True'' []], Sym ''extra'' [SInt 4]]])), 1))"
proof -
  from Model_call_options [OF Model_call_sym_run] obtain xz pz g1 z g2 u where
    a: "code sym_ext (encoder sym_model) (data ''xc'' 5) (data ''yc'' 5)
        (if PNone \<noteq> (PNone :: (sym, sym) pyval) then AugmentedInput (data ''xt'' 7) PNone
         else data ''xt'' 7)
        ([''noiseless'' \<mapsto> PBool True, ''extra'' \<mapsto> PInt 4](''noiseless'' := None))
        lit_1e_6 0 = (Inr (xz, pz), g1)" and
    b: "u_sample sym_ext pz (Some 3) lit_1e_6 g1 = (Inr z, g2)" and
    c: "code sym_ext (decoder sym_model) xz
        (if py_truthy (PNone :: (sym, sym) pyval) then B_cast sym_ext PNone z else z)
        (if PNone \<noteq> (PNone :: (sym, sym) pyval) then AugmentedInput (data ''xt'' 7) PNone
         else data ''xt'' 7)
        [''noiseless'' \<mapsto> PBool True, ''extra'' \<mapsto> PInt 4] lit_1e_6 g2 =
        (Inr (u, Dist (Sym ''code''
        [Sym ''dec'' [], Sym ''xz'' [Sym ''xc'' [SInt 5], Sym ''xt'' [SInt 7]],
         Sym ''sample''
           [Sym ''code'' [Sym ''enc'' [], Sym ''xc'' [SInt 5], Sym ''yc'' [SInt 5],
                          Sym ''xt'' [SInt 7], Sym ''kw'' [Sym ''extra'' [SInt 4]]],
            SInt 3, SInt 0],
         Sym ''xt'' [SInt 7],
         Sym ''kw'' [Sym ''noiseless'' [Sym ''True'' []], Sym ''extra'' [SInt 4]]])), 1)"
    by (elim exE conjE)
  have a': "code sym_ext ''enc'' (data ''xc'' 5) (data ''yc'' 5) (data ''xt'' 7)
        ([''noiseless'' \<mapsto> PBool True, ''extra'' \<mapsto> PInt 4](''noiseless'' := None))
        lit_1e_6 0 = (Inr (xz, pz), g1)"
    using a by (simp only: sym_model_def Model.simps simp_thms if_False)
  have c': "code sym_ext ''dec'' xz z (data ''xt'' 7)
        [''noiseless'' \<mapsto> PBool True, ''extra'' \<mapsto> PInt 4] lit_1e_6 g2 =
        (Inr (u, Dist (Sym ''code''
        [Sym ''dec'' [], Sym ''xz'' [Sym ''xc'' [SInt 5], Sym ''xt'' [SInt 7]],
         Sym ''sample''
           [Sym ''code'' [Sym ''enc'' [], Sym ''xc'' [SInt 5], Sym ''yc'' [SInt 5],
                          Sym ''xt'' [SInt 7], Sym ''kw'' [Sym ''extra'' [SInt 4]]],
            SInt 3, SInt 0],
         Sym ''xt'' [SInt 7],
         Sym ''kw'' [Sym ''noiseless'' [Sym ''True'' []], Sym ''extra'' [SInt 4]]])), 1)"
    using c by (simp only: sym_model_def Model.simps simp_thms if_False py_truthy.simps)
  from a' b c' have ex: "\<exists>xz pz g1 z g2 u.
      code sym_ext ''enc'' (data ''xc'' 5) (data ''yc'' 5) (data ''xt'' 7)
        ([''noiseless'' \<mapsto> PBool True, ''extra'' \<mapsto> PInt 4](''noiseless'' := None))
        lit_1e_6 0 = (Inr (xz, pz), g1) \<and>
      u_sample sym_ext pz (Some 3) lit_1e_6 g1 = (Inr z, g2) \<and>
      code sym_ext ''dec'' xz z (data ''xt'' 7)
        [''noiseless'' \<mapsto> PBool True, ''extra'' \<mapsto> PInt 4] lit_1e_6 g2 =
        (Inr (u, Dist (Sym ''code''
        [Sym ''dec'' [], Sym ''xz'' [Sym ''xc'' [SInt 5], Sym ''xt'' [SInt 7]],
         Sym ''sample''
           [Sym ''code'' [Sym ''enc'' [], Sym ''xc'' [SInt 5], Sym ''yc'' [SInt 5],
                          Sym ''xt'' [SInt 7], Sym ''kw'' [Sym ''extra'' [SInt 4]]],
            SInt 3, SInt 0],
         Sym ''xt'' [SInt 7],
         Sym ''kw'' [Sym ''noiseless'' [Sym ''True'' []], Sym ''extra'' [SInt 4]]])), 1)"
    by (intro exI conjI)
  from conjI [OF Model_call_sym_run ex] show ?thesis .
qed


section \<open>The objectives\<close>

lemmas sym_defs = sym_ext_def sym_model_def sym_op_def reify_kw_def data_def

text \<open>
  C5, as the code behaves. With \<^verbatim>\<open>normalise=True\<close>, \<^verbatim>\<open>elbo\<close> returns the value it
  returns with \<^verbatim>\<open>normalise=False\<close> divided by the size of the last axis of the target
  inputs that the bound was computed on: the caller's \<open>xt\<close> when
  \<^verbatim>\<open>subsume_context\<close> is false, and the concatenation of \<open>xc\<close> and \<open>xt\<close> when it is
  true, so that the context points are counted too.
\<close>

theorem elbo_normalise:
  "elbo E model xc yc xt yt num_samples True subsume_context kw_args eps g =
     (case elbo E model xc yc xt yt num_samples False subsume_context kw_args eps g of
        (Inl e, g') \<Rightarrow> (Inl e, g')
      | (Inr elbos, g') \<Rightarrow>
          (Inr (op_truediv E elbos
                  (PInt (B_shape_last E
                     (if subsume_context then B_concat_last E xc xt else xt)))), g'))"
  unfolding elbo_def Let_def
  by (auto simp: eff_defs split: prod.splits sum.splits)

text \<open>C5 as stated fails: with 5 context points, 7 target points and
  \<^verbatim>\<open>subsume_context=True\<close> the divisor is 12, not the 7 of the caller's \<open>xt\<close>.\<close>

theorem elbo_normalise_counterexample:
  "B_shape_last sym_ext (data ''xt'' 7) = 7 \<and>
   B_shape_last sym_ext (B_concat_last sym_ext (data ''xc'' 5) (data ''xt'' 7)) = 12 \<and>
   elbo sym_ext sym_model (data ''xc'' 5) (data ''yc'' 5) (data ''xt'' 7) (data ''yt'' 7) 1
     True True Map.empty lit_1e_6 0 \<noteq>
   (case elbo sym_ext sym_model (data ''xc'' 5) (data ''yc'' 5) (data ''xt'' 7) (data ''yt'' 7) 1
           False True Map.empty lit_1e_6 0 of
      (Inl e, g') \<Rightarrow> (Inl e, g')
    | (Inr elbos, g') \<Rightarrow>
        (Inr (op_truediv sym_ext elbos (PInt (B_shape_last sym_ext (data ''xt'' 7)))), g'))"
  by (simp add: elbo_def eff_defs u_sample_def sym_defs Let_def)

text \<open>
  C6. When \<^verbatim>\<open>loglik\<close> returns, the model returned a distribution \<open>pred\<close>, and the
  result is the log-density of \<open>pred\<close> at \<open>yt\<close> in the promoted precision,
  collapsed by log-sum-exp over axis 0 minus \<^verbatim>\<open>log(num_samples)\<close> exactly when
  \<open>num_samples > 1\<close> (so left as it is for one sample), then divided by the size of
  the last axis of \<open>xt\<close> exactly when \<open>normalise\<close> holds.
\<close>

theorem loglik_collapse:
  assumes "loglik E model xc yc xt yt num_samples normalise kw_args eps g = (Inr r, g')"
  shows "\<exists>pred.
      Model_call E model xc yc xt num_samples (get_kw kw_args ''aux_t'') (B_dtype_float E yt)
        ((kw_args(''aux_t'' := None))
           (''dtype_lik'' \<mapsto> B_promote_dtypes E (B_dtype_float E yt) (np_float64 E)))
        eps g = (Inr (Dist pred), g') \<and>
      r = (let logpdfs = dist_logpdf E pred
                 (B_cast E (B_promote_dtypes E (B_dtype_float E yt) (np_float64 E)) yt);
               collapsed = (if num_samples > 1
                            then op_sub E (B_logsumexp0 E logpdfs) (B_log E (PInt num_samples))
                            else logpdfs)
           in if normalise then op_truediv E collapsed (PInt (B_shape_last E xt))
              else collapsed)"
proof -
  from assms obtain p where
    m: "Model_call E model xc yc xt num_samples (get_kw kw_args ''aux_t'') (B_dtype_float E yt)
        ((kw_args(''aux_t'' := None))
           (''dtype_lik'' \<mapsto> B_promote_dtypes E (B_dtype_float E yt) (np_float64 E)))
        eps g = (Inr p, g')"
    unfolding loglik_def Let_def
    by (auto simp: eff_defs split: if_splits prod.splits sum.splits)
  from assms m obtain pred where p: "p = Dist pred"
    unfolding loglik_def Let_def
    by (cases p) (auto simp: eff_defs split: if_splits prod.splits sum.splits)
  from assms m p show ?thesis
    unfolding loglik_def Let_def
    by (auto simp: eff_defs split: if_splits prod.splits sum.splits)
qed

text \<open>Runs of \<^verbatim>\<open>loglik\<close> on the symbolic backend with four samples and with
  one sample, 7 target points, normalised.\<close>

lemma loglik_sym_run:
  "loglik sym_ext sym_model (data ''xc'' 5) (data ''yc'' 5) (data ''xt'' 7) (data ''yt'' 7) 4 True Map.empty lit_1e_6 0 =
     (Inr (Tensor (Sym ''truediv'' [Sym ''sub'' [Sym ''logsumexp'' [Sym ''logpdf'' [Sym
           ''code'' [Sym ''dec'' [], Sym ''xz'' [Sym ''xc'' [SInt 5], Sym ''xt'' [SInt
           7]], Sym ''cast'' [Sym ''float32'' [], Sym ''sample'' [Sym ''code'' [Sym
           ''enc'' [], Sym ''xc'' [SInt 5], Sym ''yc'' [SInt 5], Sym ''xt'' [SInt 7],
           Sym ''kw'' [Sym ''dtype_lik'' [Sym ''float64'' []]]], SInt 4, SInt 0]], Sym
           ''xt'' [SInt 7], Sym ''kw'' [Sym ''dtype_lik'' [Sym ''float64'' []]]], Sym
           ''cast'' [Sym ''float64'' [], Sym ''yt'' [SInt 7]]]], Sym ''log'' [SInt 4]],
           SInt 7])), 1)"
  by (simp add: loglik_def Model_call_def eff_defs u_sample_def get_kw_def sym_defs Let_def)

lemma loglik_sym_run_single:
  "loglik sym_ext sym_model (data ''xc'' 5) (data ''yc'' 5) (data ''xt'' 7) (data ''yt'' 7) 1 True Map.empty lit_1e_6 0 =
     (Inr (Tensor (Sym ''truediv'' [Sym ''logpdf'' [Sym ''code'' [Sym ''dec'' [], Sym
           ''xz'' [Sym ''xc'' [SInt 5], Sym ''xt'' [SInt 7]], Sym ''cast'' [Sym
           ''float32'' [], Sym ''sample'' [Sym ''code'' [Sym ''enc'' [], Sym ''xc''
           [SInt 5], Sym ''yc'' [SInt 5], Sym ''xt'' [SInt 7], Sym ''kw'' [Sym
           ''dtype_lik'' [Sym ''float64'' []]]], SInt 1, SInt 0]], Sym ''xt'' [SInt 7],
           Sym ''kw'' [Sym ''dtype_lik'' [Sym ''float64'' []]]], Sym ''cast'' [Sym
           ''float64'' [], Sym ''yt'' [SInt 7]]], SInt 7])), 1)"
  by (simp add: loglik_def Model_call_def eff_defs u_sample_def get_kw_def sym_defs Let_def)

theorem loglik_collapse_witness:
  "loglik sym_ext sym_model (data ''xc'' 5) (data ''yc'' 5) (data ''xt'' 7) (data ''yt'' 7) 4 True Map.empty lit_1e_6 0 =
     (Inr (Tensor (Sym ''truediv'' [Sym ''sub'' [Sym ''logsumexp'' [Sym ''logpdf'' [Sym
           ''code'' [Sym ''dec'' [], Sym ''xz'' [Sym ''xc'' [SInt 5], Sym ''xt'' [SInt
           7]], Sym ''cast'' [Sym ''float32'' [], Sym ''sample'' [Sym ''code'' [Sym
           ''enc'' [], Sym ''xc'' [SInt 5], Sym ''yc'' [SInt 5], Sym ''xt'' [SInt 7],
           Sym ''kw'' [Sym ''dtype_lik'' [Sym ''float64'' []]]], SInt 4, SInt 0]], Sym
           ''xt'' [SInt 7], Sym ''kw'' [Sym ''dtype_lik'' [Sym ''float64'' []]]], Sym
           ''cast'' [Sym ''float64'' [], Sym ''yt'' [SInt 7]]]], Sym ''log'' [SInt 4]],
           SInt 7])), 1) \<and>
   (\<exists>pred.
      Model_call sym_ext sym_model (data ''xc'' 5) (data ''yc'' 5) (data ''xt'' 7) 4
        (get_kw Map.empty ''aux_t'') (B_dtype_float sym_ext (data ''yt'' 7))
        ((Map.empty(''aux_t'' := None))
           (''dtype_lik'' \<mapsto> B_promote_dtypes sym_ext (B_dtype_float sym_ext (data ''yt'' 7)) (np_float64 sym_ext)))
        lit_1e_6 0 = (Inr (Dist pred), 1) \<and>
      Tensor (Sym ''truediv'' [Sym ''sub'' [Sym ''logsumexp'' [Sym ''logpdf'' [Sym
        ''code'' [Sym ''dec'' [], Sym ''xz'' [Sym ''xc'' [SInt 5], Sym ''xt'' [SInt 7]],
        Sym ''cast'' [Sym ''float32'' [], Sym ''sample'' [Sym ''code'' [Sym ''enc'' [],
        Sym ''xc'' [SInt 5], Sym ''yc'' [SInt 5], Sym ''xt'' [SInt 7], Sym ''kw'' [Sym
        ''dtype_lik'' [Sym ''float64'' []]]], SInt 4, SInt 0]], Sym ''xt'' [SInt 7], Sym
        ''kw'' [Sym ''dtype_lik'' [Sym ''float64'' []]]], Sym ''cast'' [Sym ''float64''
        [], Sym ''yt'' [SInt 7]]]], Sym ''log'' [SInt 4]], SInt 7]) =
        (let logpdfs = dist_logpdf sym_ext pred
               (B_cast sym_ext (B_promote_dtypes sym_ext (B_dtype_float sym_ext (data ''yt'' 7)) (np_float64 sym_ext)) (data ''yt'' 7));
             collapsed = (if (4::int) > 1
                          then op_sub sym_ext (B_logsumexp0 sym_ext logpdfs)
                                 (B_log sym_ext (PInt 4))
                          else logpdfs)
         in if True then op_truediv sym_ext collapsed (PInt (B_shape_last sym_ext (data ''xt'' 7)))
            else collapsed))"
proof -
  from conjI [OF loglik_sym_run loglik_collapse [OF loglik_sym_run]] show ?thesis .
qed

text \<open>
  C7. When \<^verbatim>\<open>elbo\<close> returns without normalisation, its result is the mean over axis
  0 of the log-density of the decoded distribution at \<open>yt\<close> (the targets the bound is
  computed on, cast to the promoted precision) minus \<^verbatim>\<open>_kl(qz, pz)\<close>: the KL term
  is one value, subtracted after the mean is taken.
\<close>

theorem elbo_unnormalised:
  assumes "elbo E model xc yc xt yt num_samples False subsume_context kw_args eps g = (Inr r, g')"
  shows "\<exists>xz pz h g1 qz g2 z g3 u d kl.
      code_track E (encoder model) xc yc
        (if subsume_context then B_concat_last E xc xt else xt)
        (kw_args(''dtype_lik'' \<mapsto> B_promote_dtypes E (B_dtype_float E yt) (np_float64 E)))
        eps g = (Inr (xz, pz, h), g1) \<and>
      recode_stochastic E (encoder model) pz
        (if subsume_context then B_concat_last E xc xt else xt)
        (if subsume_context then B_concat_last E yc yt else yt) h
        (kw_args(''dtype_lik'' \<mapsto> B_promote_dtypes E (B_dtype_float E yt) (np_float64 E)))
        eps g1 = (Inr qz, g2) \<and>
      u_sample E qz (Some num_samples) eps g2 = (Inr z, g3) \<and>
      code E (decoder model) xz (B_cast E (B_dtype_float E yt) z)
        (if subsume_context then B_concat_last E xc xt else xt)
        (kw_args(''dtype_lik'' \<mapsto> B_promote_dtypes E (B_dtype_float E yt) (np_float64 E)))
        eps g3 = (Inr (u, Dist d), g') \<and>
      u_kl E qz pz = Inr kl \<and>
      r = op_sub E
            (B_mean0 E (dist_logpdf E d
               (B_cast E (B_promote_dtypes E (B_dtype_float E yt) (np_float64 E))
                  (if subsume_context then B_concat_last E yc yt else yt))))
            kl"
proof -
  let ?xt = "if subsume_context then B_concat_last E xc xt else xt"
  let ?yt = "if subsume_context then B_concat_last E yc yt else yt"
  let ?kw = "kw_args(''dtype_lik'' \<mapsto> B_promote_dtypes E (B_dtype_float E yt) (np_float64 E))"
  from assms obtain xz pz h g1 where
    a: "code_track E (encoder model) xc yc ?xt ?kw eps g = (Inr (xz, pz, h), g1)"
    unfolding elbo_def Let_def
    by (auto simp: eff_defs split: if_splits prod.splits sum.splits)
  from assms a obtain qz g2 where
    b: "recode_stochastic E (encoder model) pz ?xt ?yt h ?kw eps g1 = (Inr qz, g2)"
    unfolding elbo_def Let_def
    by (auto simp: eff_defs split: if_splits prod.splits sum.splits)
  from assms a b obtain z g3 where
    c: "u_sample E qz (Some num_samples) eps g2 = (Inr z, g3)"
    unfolding elbo_def Let_def
    by (auto simp: eff_defs split: if_splits prod.splits sum.splits)
  from assms a b c obtain u dd g4 where
    d: "code E (decoder model) xz (B_cast E (B_dtype_float E yt) z) ?xt ?kw eps g3 =
          (Inr (u, dd), g4)"
    unfolding elbo_def Let_def
    by (auto simp: eff_defs split: if_splits prod.splits sum.splits)
  from assms a b c d obtain d' where dd: "dd = Dist d'"
    unfolding elbo_def Let_def
    by (cases dd) (auto simp: eff_defs split: if_splits prod.splits sum.splits)
  from assms a b c d dd obtain kl where
    k: "u_kl E qz pz = Inr kl"
    unfolding elbo_def Let_def
    by (auto simp: eff_defs split: if_splits prod.splits sum.splits)
  from assms a b c d dd k have
    r: "g4 = g'" "r = op_sub E (B_mean0 E (dist_logpdf E d'
          (B_cast E (B_promote_dtypes E (B_dtype_float E yt) (np_float64 E)) ?yt))) kl"
    unfolding elbo_def Let_def
    by (auto simp: eff_defs split: if_splits prod.splits sum.splits)
  from a b c d dd k r show ?thesis by blast
qed


text \<open>A run of \<^verbatim>\<open>elbo\<close> on the symbolic backend with three samples, the context
  subsumed, not normalised.\<close>

lemma elbo_sym_run:
  "elbo sym_ext sym_model (data ''xc'' 5) (data ''yc'' 5) (data ''xt'' 7) (data ''yt'' 7) 3 False True Map.empty lit_1e_6 0 =
     (Inr (Tensor (Sym ''sub'' [Sym ''mean'' [Sym ''logpdf'' [Sym ''code'' [Sym ''dec''
           [], Sym ''xz'' [Sym ''xc'' [SInt 5], Sym ''concat'' [Sym ''xc'' [SInt 5], Sym
           ''xt'' [SInt 7]]], Sym ''cast'' [Sym ''float32'' [], Sym ''sample'' [Sym
           ''recode_stochastic'' [Sym ''enc'' [], Sym ''code_track'' [Sym ''enc'' [],
           Sym ''xc'' [SInt 5], Sym ''yc'' [SInt 5], Sym ''concat'' [Sym ''xc'' [SInt
           5], Sym ''xt'' [SInt 7]], Sym ''kw'' [Sym ''dtype_lik'' [Sym ''float64''
           []]]], Sym ''concat'' [Sym ''xc'' [SInt 5], Sym ''xt'' [SInt 7]], Sym
           ''concat'' [Sym ''yc'' [SInt 5], Sym ''yt'' [SInt 7]], Sym ''h'' [], Sym
           ''kw'' [Sym ''dtype_lik'' [Sym ''float64'' []]]], SInt 3, SInt 0]], Sym
           ''concat'' [Sym ''xc'' [SInt 5], Sym ''xt'' [SInt 7]], Sym ''kw'' [Sym
           ''dtype_lik'' [Sym ''float64'' []]]], Sym ''cast'' [Sym ''float64'' [], Sym
           ''concat'' [Sym ''yc'' [SInt 5], Sym ''yt'' [SInt 7]]]]], Sym ''kl'' [Sym
           ''recode_stochastic'' [Sym ''enc'' [], Sym ''code_track'' [Sym ''enc'' [],
           Sym ''xc'' [SInt 5], Sym ''yc'' [SInt 5], Sym ''concat'' [Sym ''xc'' [SInt
           5], Sym ''xt'' [SInt 7]], Sym ''kw'' [Sym ''dtype_lik'' [Sym ''float64''
           []]]], Sym ''concat'' [Sym ''xc'' [SInt 5], Sym ''xt'' [SInt 7]], Sym
           ''concat'' [Sym ''yc'' [SInt 5], Sym ''yt'' [SInt 7]], Sym ''h'' [], Sym
           ''kw'' [Sym ''dtype_lik'' [Sym ''float64'' []]]], Sym ''code_track'' [Sym
           ''enc'' [], Sym ''xc'' [SInt 5], Sym ''yc'' [SInt 5], Sym ''concat'' [Sym
           ''xc'' [SInt 5], Sym ''xt'' [SInt 7]], Sym ''kw'' [Sym ''dtype_lik'' [Sym
           ''float64'' []]]]]])), 1)"
  by (simp add: elbo_def eff_defs u_sample_def py_sum_def sym_defs Let_def)

theorem elbo_unnormalised_witness:
  "elbo sym_ext sym_model (data ''xc'' 5) (data ''yc'' 5) (data ''xt'' 7) (data ''yt'' 7) 3 False True Map.empty lit_1e_6 0 =
     (Inr (Tensor (Sym ''sub'' [Sym ''mean'' [Sym ''logpdf'' [Sym ''code'' [Sym ''dec''
           [], Sym ''xz'' [Sym ''xc'' [SInt 5], Sym ''concat'' [Sym ''xc'' [SInt 5], Sym
           ''xt'' [SInt 7]]], Sym ''cast'' [Sym ''float32'' [], Sym ''sample'' [Sym
           ''recode_stochastic'' [Sym ''enc'' [], Sym ''code_track'' [Sym ''enc'' [],
           Sym ''xc'' [SInt 5], Sym ''yc'' [SInt 5], Sym ''concat'' [Sym ''xc'' [SInt
           5], Sym ''xt'' [SInt 7]], Sym ''kw'' [Sym ''dtype_lik'' [Sym ''float64''
           []]]], Sym ''concat'' [Sym ''xc'' [SInt 5], Sym ''xt'' [SInt 7]], Sym
           ''concat'' [Sym ''yc'' [SInt 5], Sym ''yt'' [SInt 7]], Sym ''h'' [], Sym
           ''kw'' [Sym ''dtype_lik'' [Sym ''float64'' []]]], SInt 3, SInt 0]], Sym
           ''concat'' [Sym ''xc'' [SInt 5], Sym ''xt'' [SInt 7]], Sym ''kw'' [Sym
           ''dtype_lik'' [Sym ''float64'' []]]], Sym ''cast'' [Sym ''float64'' [], Sym
           ''concat'' [Sym ''yc'' [SInt 5], Sym ''yt'' [SInt 7]]]]], Sym ''kl'' [Sym
           ''recode_stochastic'' [Sym ''enc'' [], Sym ''code_track'' [Sym ''enc'' [],
           Sym ''xc'' [SInt 5], Sym ''yc'' [SInt 5], Sym ''concat'' [Sym ''xc'' [SInt
           5], Sym ''xt'' [SInt 7]], Sym ''kw'' [Sym ''dtype_lik'' [Sym ''float64''
           []]]], Sym ''concat'' [Sym ''xc'' [SInt 5], Sym ''xt'' [SInt 7]], Sym
           ''concat'' [Sym ''yc'' [SInt 5], Sym ''yt'' [SInt 7]], Sym ''h'' [], Sym
           ''kw'' [Sym ''dtype_lik'' [Sym ''float64'' []]]], Sym ''code_track'' [Sym
           ''enc'' [], Sym ''xc'' [SInt 5], Sym ''yc'' [SInt 5], Sym ''concat'' [Sym
           ''xc'' [SInt 5], Sym ''xt'' [SInt 7]], Sym ''kw'' [Sym ''dtype_lik'' [Sym
           ''float64'' []]]]]])), 1) \<and>
   (\<exists>xz pz h g1 qz g2 z g3 u d kl.
      code_track sym_ext (encoder sym_model) (data ''xc'' 5) (data ''yc'' 5)
        (if True then B_concat_last sym_ext (data ''xc'' 5) (data ''xt'' 7) else data ''xt'' 7)
        (Map.empty(''dtype_lik'' \<mapsto> B_promote_dtypes sym_ext (B_dtype_float sym_ext (data ''yt'' 7)) (np_float64 sym_ext)))
        lit_1e_6 0 = (Inr (xz, pz, h), g1) \<and>
      recode_stochastic sym_ext (encoder sym_model) pz
        (if True then B_concat_last sym_ext (data ''xc'' 5) (data ''xt'' 7) else data ''xt'' 7)
        (if True then B_concat_last sym_ext (data ''yc'' 5) (data ''yt'' 7) else data ''yt'' 7) h
        (Map.empty(''dtype_lik'' \<mapsto> B_promote_dtypes sym_ext (B_dtype_float sym_ext (data ''yt'' 7)) (np_float64 sym_ext)))
        lit_1e_6 g1 = (Inr qz, g2) \<and>
      u_sample sym_ext qz (Some 3) lit_1e_6 g2 = (Inr z, g3) \<and>
      code sym_ext (decoder sym_model) xz (B_cast sym_ext (B_dtype_float sym_ext (data ''yt'' 7)) z)
        (if True then B_concat_last sym_ext (data ''xc'' 5) (data ''xt'' 7) else data ''xt'' 7)
        (Map.empty(''dtype_lik'' \<mapsto> B_promote_dtypes sym_ext (B_dtype_float sym_ext (data ''yt'' 7)) (np_float64 sym_ext)))
        lit_1e_6 g3 = (Inr (u, Dist d), 1) \<and>
      u_kl sym_ext qz pz = Inr kl \<and>
      Tensor (Sym ''sub'' [Sym ''mean'' [Sym ''logpdf'' [Sym ''code'' [Sym ''dec'' [],
        Sym ''xz'' [Sym ''xc'' [SInt 5], Sym ''concat'' [Sym ''xc'' [SInt 5], Sym ''xt''
        [SInt 7]]], Sym ''cast'' [Sym ''float32'' [], Sym ''sample'' [Sym
        ''recode_stochastic'' [Sym ''enc'' [], Sym ''code_track'' [Sym ''enc'' [], Sym
        ''xc'' [SInt 5], Sym ''yc'' [SInt 5], Sym ''concat'' [Sym ''xc'' [SInt 5], Sym
        ''xt'' [SInt 7]], Sym ''kw'' [Sym ''dtype_lik'' [Sym ''float64'' []]]], Sym
        ''concat'' [Sym ''xc'' [SInt 5], Sym ''xt'' [SInt 7]], Sym ''concat'' [Sym
        ''yc'' [SInt 5], Sym ''yt'' [SInt 7]], Sym ''h'' [], Sym ''kw'' [Sym
        ''dtype_lik'' [Sym ''float64'' []]]], SInt 3, SInt 0]], Sym ''concat'' [Sym
        ''xc'' [SInt 5], Sym ''xt'' [SInt 7]], Sym ''kw'' [Sym ''dtype_lik'' [Sym
        ''float64'' []]]], Sym ''cast'' [Sym ''float64'' [], Sym ''concat'' [Sym ''yc''
        [SInt 5], Sym ''yt'' [SInt 7]]]]], Sym ''kl'' [Sym ''recode_stochastic'' [Sym
        ''enc'' [], Sym ''code_track'' [Sym ''enc'' [], Sym ''xc'' [SInt 5], Sym ''yc''
        [SInt 5], Sym ''concat'' [Sym ''xc'' [SInt 5], Sym ''xt'' [SInt 7]], Sym ''kw''
        [Sym ''dtype_lik'' [Sym ''float64'' []]]], Sym ''concat'' [Sym ''xc'' [SInt 5],
        Sym ''xt'' [SInt 7]], Sym ''concat'' [Sym ''yc'' [SInt 5], Sym ''yt'' [SInt 7]],
        Sym ''h'' [], Sym ''kw'' [Sym ''dtype_lik'' [Sym ''float64'' []]]], Sym
        ''code_track'' [Sym ''enc'' [], Sym ''xc'' [SInt 5], Sym ''yc'' [SInt 5], Sym
        ''concat'' [Sym ''xc'' [SInt 5], Sym ''xt'' [SInt 7]], Sym ''kw'' [Sym
        ''dtype_lik'' [Sym ''float64'' []]]]]]) =
        op_sub sym_ext
            (B_mean0 sym_ext (dist_logpdf sym_ext d
               (B_cast sym_ext (B_promote_dtypes sym_ext (B_dtype_float sym_ext (data ''yt'' 7)) (np_float64 sym_ext))
                  (if True then B_concat_last sym_ext (data ''yc'' 5) (data ''yt'' 7) else data ''yt'' 7))))
            kl)"
proof -
  from conjI [OF elbo_sym_run elbo_unnormalised [OF elbo_sym_run]] show ?thesis .
qed

end
